theory Spec2Isabelle
  imports Main
begin

section \<open>Data model\<close>

text \<open>
  An ObjectId is held as the string its \<open>toString()\<close> prints: 24 hexadecimal digits, letters
  in lower case. The paths the schemas declare as \<open>ObjectId\<close> (every \<open>_id\<close>,
  \<open>members.userId\<close>, \<open>Project.teamId\<close>, \<open>Project.createdBy\<close>, \<open>Task.assignee\<close>) hold such
  strings; the paths declared as \<open>String\<close> (\<open>Team.owner\<close>, \<open>Task.projectId\<close>,
  \<open>Task.createdBy\<close> and the ids of an activity) hold the string they were given. What a
  request brings (URL parameters, body fields, the user id of the token) is an arbitrary
  string; the controllers compare strings with \<open>===\<close>, and Mongoose casts a string where it
  is looked up by id or stored in an \<open>ObjectId\<close> path (\<open>castObjectId\<close> below).
  Dates are milliseconds since the epoch. The \<open>createdAt\<close>/\<open>updatedAt\<close> stamps that
  Mongoose maintains by itself (\<open>timestamps: true\<close>) are not part of the model.
\<close>

type_synonym date = nat

text \<open>An optional property of a request body: \<open>undefined\<close> (absent) or a value.\<close>

datatype 'a optional = Undefined | Defined 'a

subsection \<open>interfaces/team.interface.ts\<close>

datatype TeamMemberRole = OWNER | ADMIN | MEMBER

record ITeamMember =
  userId :: string
  role :: TeamMemberRole
  joinedAt :: date

record ITeam =
  name :: string
  description :: "string option"
  owner :: string
  members :: "ITeamMember list"

subsection \<open>interfaces/task.interface.ts\<close>

datatype TaskPriority = LOW | MEDIUM | HIGH | URGENT

datatype TaskStatus = TODO | IN_PROGRESS | REVIEW | DONE

record ITask =
  title :: string
  description :: "string option"
  priority :: TaskPriority
  status :: TaskStatus
  dueDate :: "date option"
  assignee :: "string option"
  projectId :: string
  createdBy :: string

text \<open>The string values of the \<open>TaskStatus\<close> enum, as template literals print them.\<close>

fun TaskStatus_value :: "TaskStatus \<Rightarrow> string" where
  "TaskStatus_value TODO = ''todo''"
| "TaskStatus_value IN_PROGRESS = ''in_progress''"
| "TaskStatus_value REVIEW = ''review''"
| "TaskStatus_value DONE = ''done''"

subsection \<open>interfaces/user.interface.ts, interfaces/project.interface.ts\<close>

record IUser =
  name :: string
  email :: string

record IProject =
  name :: string
  description :: "string option"
  teamId :: string
  createdBy :: string

subsection \<open>interfaces/activity.interface.ts\<close>

datatype ActivityAction =
  CREATED | UPDATED | DELETED | ASSIGNED | UNASSIGNED | STATUS_CHANGED
  | MEMBER_ADDED | MEMBER_REMOVED | ROLE_CHANGED

datatype ActivityEntity = TASK | PROJECT | TEAM | USER

text \<open>
  The \<open>changes\<close> object that \<open>updateTask\<close> fills: one \<open>{old, new}\<close> pair per tracked field,
  a key being absent (\<open>None\<close>) when the field was not in the request. An assignee is a user
  id or nothing (\<open>undefined\<close> on the stored side, \<open>null\<close> on the request side); the new
  priority may be an explicit \<open>null\<close> of the request.
\<close>

record TaskChanges =
  title :: "(string \<times> string) option"
  priority :: "(TaskPriority \<times> TaskPriority option) option"
  status :: "(TaskStatus \<times> TaskStatus) option"
  assignee :: "(string option \<times> string option) option"

text \<open>The \<open>changes\<close> object of \<open>updateProject\<close>.\<close>

record ProjectChanges =
  name :: "(string \<times> string) option"
  description :: "(string option \<times> string) option"

text \<open>
  The free-form \<open>metadata\<close> object, one constructor per shape the task and project
  controllers write.
\<close>

datatype Metadata =
  TaskCreatedMeta (taskTitle: string) TaskPriority TaskStatus "string option"
| TaskUpdatedMeta (taskTitle: string) (changes: TaskChanges)
| TaskAssigneeMeta (taskTitle: string) (oldAssignee: "string option") (newAssignee: "string option")
| TaskStatusMeta (taskTitle: string) (oldStatus: TaskStatus) (newStatus: TaskStatus)
| TaskDeletedMeta (taskTitle: string)
| ProjectMeta (projectName: string)
| ProjectUpdatedMeta (projectName: string) ProjectChanges

record IActivity =
  userId :: string
  teamId :: string
  action :: ActivityAction
  entity :: ActivityEntity
  entityId :: string
  metadata :: Metadata
  timestamp :: date

subsection \<open>interfaces/socket.interface.ts\<close>

datatype SocketEvents =
  TASK_CREATED | TASK_UPDATED | TASK_DELETED | TASK_STATUS_CHANGED | TASK_ASSIGNED
  | MEMBER_JOINED | MEMBER_REMOVED | MEMBER_ROLE_UPDATED
  | PROJECT_CREATED | PROJECT_UPDATED | PROJECT_DELETED

text \<open>The \<open>{id, name, email}\<close> shape of a resolved user reference.\<close>

record UserRef =
  id :: string
  name :: string
  email :: string

record TaskResponse =
  id :: string
  title :: string
  description :: "string option"
  priority :: TaskPriority
  status :: TaskStatus
  dueDate :: "date option"
  assignee :: "UserRef option"
  project :: "string \<times> string"
  createdBy :: UserRef

record TaskCreatedPayload =
  task :: TaskResponse
  teamId :: string
  projectId :: string

record TaskUpdatedPayload =
  task :: TaskResponse
  changes :: TaskChanges
  teamId :: string
  projectId :: string
  updatedBy :: UserRef

record TaskDeletedPayload =
  taskId :: string
  taskTitle :: string
  teamId :: string
  projectId :: string
  deletedBy :: UserRef

record TaskStatusChangedPayload =
  taskId :: string
  taskTitle :: string
  oldStatus :: TaskStatus
  newStatus :: TaskStatus
  teamId :: string
  projectId :: string
  changedBy :: UserRef

record TaskAssignedPayload =
  taskId :: string
  taskTitle :: string
  assignee :: UserRef
  teamId :: string
  projectId :: string
  assignedBy :: UserRef

record JoinedMember =
  id :: string
  name :: string
  email :: string
  role :: TeamMemberRole
  joinedAt :: date

record MemberJoinedPayload =
  teamId :: string
  teamName :: string
  member :: JoinedMember
  addedBy :: UserRef

record MemberRemovedPayload =
  teamId :: string
  teamName :: string
  memberId :: string
  memberName :: string
  removedBy :: UserRef

record MemberRoleUpdatedPayload =
  teamId :: string
  teamName :: string
  member :: UserRef
  oldRole :: TeamMemberRole
  newRole :: TeamMemberRole
  updatedBy :: UserRef

record ProjectView =
  id :: string
  name :: string
  description :: "string option"

record ProjectCreatedPayload =
  project :: ProjectView
  teamId :: string
  createdBy :: UserRef

record ProjectUpdatedPayload =
  project :: ProjectView
  changes :: ProjectChanges
  teamId :: string
  updatedBy :: UserRef

record ProjectDeletedPayload =
  projectId :: string
  projectName :: string
  teamId :: string
  deletedBy :: UserRef

datatype Payload =
  TaskCreated TaskCreatedPayload
| TaskUpdated TaskUpdatedPayload
| TaskDeleted TaskDeletedPayload
| TaskStatusChanged TaskStatusChangedPayload
| TaskAssigned TaskAssignedPayload
| MemberJoined MemberJoinedPayload
| MemberRemoved MemberRemovedPayload
| MemberRoleUpdated MemberRoleUpdatedPayload
| ProjectCreated ProjectCreatedPayload
| ProjectUpdated ProjectUpdatedPayload
| ProjectDeleted ProjectDeletedPayload

text \<open>
  One \<open>io.to(room).emit(event, data)\<close>. The personal copies are the payload spread into a
  new object with two more keys, \<open>isPersonal\<close> and \<open>message\<close>; on the team copy the keys do
  not exist (\<open>None\<close>).
\<close>

record Emission =
  room :: string
  event :: SocketEvents
  payload :: Payload
  isPersonal :: "bool option"
  message :: "string option"

subsection \<open>responses\<close>

text \<open>
  The JSON body of \<open>ApiResponse\<close> with the HTTP status it is sent under. The \<open>data\<close> of a
  success (a denormalised view of the entity) is left out.
\<close>

record ApiResponse =
  statusCode :: nat
  success :: bool
  message :: string
  error :: "string option"

subsection \<open>The store and the outside world\<close>

text \<open>
  The collections of the document store, the audit collection in insertion order, the
  Socket.IO server (\<open>io\<close> is false while the module variable is \<open>null\<close>), everything emitted
  so far, and the clock that \<open>new Date()\<close> reads. The keys of the collections are
  ObjectId strings. The connection to the store is taken to be up; what Mongoose itself
  refuses (a string that does not cast to an ObjectId, a document that fails validation at
  \<open>save()\<close>) throws, and is modelled where it can happen.
\<close>

record World =
  users :: "(string \<times> IUser) list"
  teams :: "string \<rightharpoonup> ITeam"
  projects :: "string \<rightharpoonup> IProject"
  tasks :: "string \<rightharpoonup> ITask"
  activities :: "IActivity list"
  io :: bool
  emitted :: "Emission list"
  now :: date

section \<open>models/task.model.ts\<close>

text \<open>
  \<open>canTransitionTo\<close> builds the record \<open>transitions\<close> and answers
  \<open>transitions[currentStatus]?.includes(newStatus) || false\<close>.
\<close>

definition transitions :: "(TaskStatus \<times> TaskStatus list) list" where
  "transitions =
     [(TODO, [IN_PROGRESS, DONE]),
      (IN_PROGRESS, [TODO, REVIEW, DONE]),
      (REVIEW, [IN_PROGRESS, DONE]),
      (DONE, [TODO, IN_PROGRESS, REVIEW])]"

definition canTransitionTo :: "ITask \<Rightarrow> TaskStatus \<Rightarrow> bool" where
  "canTransitionTo this new_status =
     (let currentStatus = ITask.status this in
      case map_of transitions currentStatus of
        None \<Rightarrow> False
      | Some allowed \<Rightarrow> List.member allowed new_status)"

section \<open>models/team.model.ts\<close>

text \<open>
  The three schema methods. A member's \<open>userId\<close> is read as a string whether or not the
  reference is populated (\<open>userId._id.toString()\<close> or \<open>userId.toString()\<close>), so the model
  compares the id strings.
\<close>

definition isMember :: "ITeam \<Rightarrow> string \<Rightarrow> bool" where
  "isMember this uid = list_ex (\<lambda>m. ITeamMember.userId m = uid) (members this)"

definition isAdminOrOwner :: "ITeam \<Rightarrow> string \<Rightarrow> bool" where
  "isAdminOrOwner this uid =
     (if owner this = uid then True
      else list_ex (\<lambda>m. ITeamMember.userId m = uid
                           \<and> (ITeamMember.role m = ADMIN \<or> ITeamMember.role m = OWNER))
             (members this))"

definition getMemberRole :: "ITeam \<Rightarrow> string \<Rightarrow> TeamMemberRole option" where
  "getMemberRole this uid =
     (if owner this = uid then Some OWNER
      else case find (\<lambda>m. ITeamMember.userId m = uid) (members this) of
             Some m \<Rightarrow> Some (ITeamMember.role m)
           | None \<Rightarrow> None)"

section \<open>responses/index.ts and response-messages.ts\<close>

definition ResponseHandler_success :: "string \<Rightarrow> nat \<Rightarrow> ApiResponse" where
  "ResponseHandler_success msg code =
     \<lparr>statusCode = code, success = True, message = msg, error = None\<rparr>"

definition ResponseHandler_error :: "string \<Rightarrow> string \<Rightarrow> nat \<Rightarrow> ApiResponse" where
  "ResponseHandler_error msg err code =
     \<lparr>statusCode = code, success = False, message = msg, error = Some err\<rparr>"

definition ResponseHandler_unauthorized :: "string \<Rightarrow> ApiResponse" where
  "ResponseHandler_unauthorized msg = ResponseHandler_error msg ''Unauthorized'' 401"

definition ResponseHandler_notFound :: "string \<Rightarrow> ApiResponse" where
  "ResponseHandler_notFound msg = ResponseHandler_error msg ''Not found'' 404"

definition ResponseHandler_forbidden :: "string \<Rightarrow> ApiResponse" where
  "ResponseHandler_forbidden msg = ResponseHandler_error msg ''Forbidden'' 403"

text \<open>
  \<open>serverError\<close> is what every controller's \<open>catch\<close> answers. Outside development mode its
  \<open>error\<close> field is the fixed text below; in development mode it is the exception's message.
\<close>

definition ResponseHandler_serverError :: "string \<Rightarrow> ApiResponse" where
  "ResponseHandler_serverError msg = ResponseHandler_error msg ''Internal server error'' 500"

abbreviation AUTH_UNAUTHORIZED :: string where
  "AUTH_UNAUTHORIZED \<equiv> ''Unauthorized access''"

abbreviation GENERAL_INTERNAL_SERVER_ERROR :: string where
  "GENERAL_INTERNAL_SERVER_ERROR \<equiv> ''Internal server error''"

abbreviation TASK_NOT_FOUND :: string where
  "TASK_NOT_FOUND \<equiv> ''Task not found''"

abbreviation TASK_UNAUTHORIZED :: string where
  "TASK_UNAUTHORIZED \<equiv> ''You are not authorized to access this task''"

abbreviation TASK_PROJECT_NOT_FOUND :: string where
  "TASK_PROJECT_NOT_FOUND \<equiv> ''Project not found''"

abbreviation TASK_TEAM_NOT_FOUND :: string where
  "TASK_TEAM_NOT_FOUND \<equiv> ''Team not found''"

abbreviation TASK_NOT_TEAM_MEMBER :: string where
  "TASK_NOT_TEAM_MEMBER \<equiv> ''You are not a member of this team''"

abbreviation TASK_ASSIGNEE_NOT_FOUND :: string where
  "TASK_ASSIGNEE_NOT_FOUND \<equiv> ''Assignee not found''"

abbreviation PROJECT_NOT_FOUND :: string where
  "PROJECT_NOT_FOUND \<equiv> ''Project not found''"

abbreviation PROJECT_UNAUTHORIZED :: string where
  "PROJECT_UNAUTHORIZED \<equiv> ''You are not authorized to access this project''"

abbreviation PROJECT_TEAM_NOT_FOUND :: string where
  "PROJECT_TEAM_NOT_FOUND \<equiv> ''Team not found''"

abbreviation PROJECT_NOT_TEAM_MEMBER :: string where
  "PROJECT_NOT_TEAM_MEMBER \<equiv> ''You are not a member of this team''"

section \<open>Reading the request and the store\<close>

text \<open>
  \<open>req.user?.userId\<close> followed by \<open>if (!userId)\<close>: a missing user and the empty string are
  both refused.
\<close>

definition requester :: "string option \<Rightarrow> string option" where
  "requester u = (case u of None \<Rightarrow> None | Some uid \<Rightarrow> if uid = [] then None else Some uid)"

text \<open>
  The cast of a string to an ObjectId: a string of 24 hexadecimal digits in either letter
  case denotes the ObjectId that prints with the letters in lower case; any other string is
  refused (\<open>None\<close>), which Mongoose reports by throwing a \<open>CastError\<close>.
\<close>

definition isHexDigit :: "char \<Rightarrow> bool" where
  "isHexDigit c = (c \<in> set ''0123456789abcdefABCDEF'')"

definition toLowerHex :: "char \<Rightarrow> char" where
  "toLowerHex c = (case map_of (zip ''ABCDEF'' ''abcdef'') c of Some l \<Rightarrow> l | None \<Rightarrow> c)"

definition castObjectId :: "string \<Rightarrow> string option" where
  "castObjectId s =
     (if length s = 24 \<and> list_all isHexDigit s then Some (map toLowerHex s) else None)"

text \<open>
  \<open>Model.findById(id)\<close> for a string: the cast fails and the query throws, or no document
  has that \<open>_id\<close> (\<open>null\<close>), or the document is found; \<open>Found\<close> also carries what
  \<open>_id.toString()\<close> of the document prints.
\<close>

datatype 'a lookup = CastError | Missing | Found string 'a

definition findById :: "(string \<rightharpoonup> 'a) \<Rightarrow> string \<Rightarrow> 'a lookup" where
  "findById coll s =
     (case castObjectId s of
        None \<Rightarrow> CastError
      | Some k \<Rightarrow> (case coll k of None \<Rightarrow> Missing | Some d \<Rightarrow> Found k d))"

definition User_findById :: "World \<Rightarrow> string \<Rightarrow> IUser lookup" where
  "User_findById w s = findById (map_of (users w)) s"

definition Team_findById :: "World \<Rightarrow> string \<Rightarrow> ITeam lookup" where
  "Team_findById w s = findById (teams w) s"

definition Project_findById :: "World \<Rightarrow> string \<Rightarrow> IProject lookup" where
  "Project_findById w s = findById (projects w) s"

definition Task_findById :: "World \<Rightarrow> string \<Rightarrow> ITask lookup" where
  "Task_findById w s = findById (tasks w) s"

definition User_findOne_email :: "World \<Rightarrow> string \<Rightarrow> (string \<times> IUser) option" where
  "User_findOne_email w e = find (\<lambda>(uid, u). IUser.email u = e) (users w)"

text \<open>
  \<open>save()\<close> of a document under its \<open>_id\<close>, and \<open>findByIdAndDelete\<close> of an \<open>_id\<close>. A handler
  calls these once the document is known to pass validation and the id to cast.
\<close>

definition Team_save :: "string \<Rightarrow> ITeam \<Rightarrow> World \<Rightarrow> World" where
  "Team_save tid t w = w\<lparr>teams := fun_upd (teams w) tid (Some t)\<rparr>"

definition Task_save :: "string \<Rightarrow> ITask \<Rightarrow> World \<Rightarrow> World" where
  "Task_save kid t w = w\<lparr>tasks := fun_upd (tasks w) kid (Some t)\<rparr>"

definition Task_findByIdAndDelete :: "string \<Rightarrow> World \<Rightarrow> World" where
  "Task_findByIdAndDelete kid w = w\<lparr>tasks := fun_upd (tasks w) kid None\<rparr>"

definition Team_findByIdAndDelete :: "string \<Rightarrow> World \<Rightarrow> World" where
  "Team_findByIdAndDelete tid w = w\<lparr>teams := fun_upd (teams w) tid None\<rparr>"

definition Project_save :: "string \<Rightarrow> IProject \<Rightarrow> World \<Rightarrow> World" where
  "Project_save pid p w = w\<lparr>projects := fun_upd (projects w) pid (Some p)\<rparr>"

definition Project_findByIdAndDelete :: "string \<Rightarrow> World \<Rightarrow> World" where
  "Project_findByIdAndDelete pid w = w\<lparr>projects := fun_upd (projects w) pid None\<rparr>"

text \<open>\<open>Array.prototype.findIndex\<close>, with \<open>None\<close> for \<open>-1\<close>, and \<open>splice(i, 1)\<close>.\<close>

fun findIndex :: "('a \<Rightarrow> bool) \<Rightarrow> 'a list \<Rightarrow> nat option" where
  "findIndex P [] = None"
| "findIndex P (x # xs) = (if P x then Some 0 else map_option Suc (findIndex P xs))"

definition splice1 :: "nat \<Rightarrow> 'a list \<Rightarrow> 'a list" where
  "splice1 i xs = take i xs @ drop (Suc i) xs"

text \<open>
  \<open>populate(path, 'name email')\<close> of a reference to a user: the user document, read as
  \<open>{id: _id.toString(), name, email}\<close>, or \<open>null\<close> when no user has that id. For a string
  that does not cast the answer of the model is \<open>None\<close> as well: the handlers read \<open>_id\<close> of
  what a \<open>String\<close> path was populated with right away, which throws on \<open>null\<close>, so a
  \<open>null\<close> and a failed cast both end in the handler's \<open>catch\<close>.
\<close>

definition populateUser :: "World \<Rightarrow> string \<Rightarrow> UserRef option" where
  "populateUser w s =
     (case User_findById w s of
        Found k u \<Rightarrow> Some \<lparr>UserRef.id = k, UserRef.name = IUser.name u, UserRef.email = IUser.email u\<rparr>
      | _ \<Rightarrow> None)"

text \<open>\<open>populate('projectId', ...)\<close> of a task, whose \<open>projectId\<close> is a \<open>String\<close> path.\<close>

definition populateProject :: "World \<Rightarrow> string \<Rightarrow> (string \<times> IProject) option" where
  "populateProject w s =
     (case Project_findById w s of Found k p \<Rightarrow> Some (k, p) | _ \<Rightarrow> None)"

section \<open>services/activity.service.ts\<close>

text \<open>
  \<open>logActivity\<close> inserts one document. (A failing insert is caught inside and answered with
  \<open>null\<close>; the store of the model does not fail.)
\<close>

definition logActivity ::
  "string \<Rightarrow> string \<Rightarrow> ActivityAction \<Rightarrow> ActivityEntity \<Rightarrow> string \<Rightarrow> Metadata \<Rightarrow> World \<Rightarrow> World" where
  "logActivity uid tid act ent eid meta w =
     w\<lparr>activities := activities w @
          [\<lparr>IActivity.userId = uid, IActivity.teamId = tid, action = act, entity = ent,
            entityId = eid, metadata = meta, timestamp = now w\<rparr>]\<rparr>"

section \<open>services/socket.service.ts\<close>

fun TeamMemberRole_value :: "TeamMemberRole \<Rightarrow> string" where
  "TeamMemberRole_value OWNER = ''owner''"
| "TeamMemberRole_value ADMIN = ''admin''"
| "TeamMemberRole_value MEMBER = ''member''"

definition io_to_emit ::
  "string \<Rightarrow> SocketEvents \<Rightarrow> Payload \<Rightarrow> bool option \<Rightarrow> string option \<Rightarrow> World \<Rightarrow> World" where
  "io_to_emit rm ev d personal msg w =
     w\<lparr>emitted := emitted w @
          [\<lparr>room = rm, event = ev, payload = d, isPersonal = personal, Emission.message = msg\<rparr>]\<rparr>"

text \<open>
  Every emitter starts with \<open>if (!isSocketInitialized()) return\<close> and then addresses the room
  \<open>team:${payload.teamId}\<close>. Four of them go on to the personal room \<open>user:${id}\<close> with the
  payload spread under \<open>isPersonal: true\<close>.
\<close>

definition emitTaskCreated :: "TaskCreatedPayload \<Rightarrow> World \<Rightarrow> World" where
  "emitTaskCreated p w =
     (if \<not> io w then w
      else io_to_emit (''team:'' @ TaskCreatedPayload.teamId p) TASK_CREATED (TaskCreated p) None None w)"

definition emitTaskUpdated :: "TaskUpdatedPayload \<Rightarrow> World \<Rightarrow> World" where
  "emitTaskUpdated p w =
     (if \<not> io w then w
      else io_to_emit (''team:'' @ TaskUpdatedPayload.teamId p) TASK_UPDATED (TaskUpdated p) None None w)"

definition emitTaskDeleted :: "TaskDeletedPayload \<Rightarrow> World \<Rightarrow> World" where
  "emitTaskDeleted p w =
     (if \<not> io w then w
      else io_to_emit (''team:'' @ TaskDeletedPayload.teamId p) TASK_DELETED (TaskDeleted p) None None w)"

definition emitTaskStatusChanged :: "TaskStatusChangedPayload \<Rightarrow> World \<Rightarrow> World" where
  "emitTaskStatusChanged p w =
     (if \<not> io w then w
      else io_to_emit (''team:'' @ TaskStatusChangedPayload.teamId p) TASK_STATUS_CHANGED
             (TaskStatusChanged p) None None w)"

definition emitTaskAssigned :: "TaskAssignedPayload \<Rightarrow> World \<Rightarrow> World" where
  "emitTaskAssigned p w =
     (if \<not> io w then w
      else
        let w1 = io_to_emit (''team:'' @ TaskAssignedPayload.teamId p) TASK_ASSIGNED
                   (TaskAssigned p) None None w
        in if UserRef.id (TaskAssignedPayload.assignee p) \<noteq> []
           then io_to_emit (''user:'' @ UserRef.id (TaskAssignedPayload.assignee p)) TASK_ASSIGNED
                  (TaskAssigned p) (Some True) None w1
           else w1)"

definition emitMemberJoined :: "MemberJoinedPayload \<Rightarrow> World \<Rightarrow> World" where
  "emitMemberJoined p w =
     (if \<not> io w then w
      else
        let w1 = io_to_emit (''team:'' @ MemberJoinedPayload.teamId p) MEMBER_JOINED
                   (MemberJoined p) None None w
        in io_to_emit (''user:'' @ JoinedMember.id (MemberJoinedPayload.member p)) MEMBER_JOINED
             (MemberJoined p) (Some True)
             (Some (''You have been added to '' @ MemberJoinedPayload.teamName p)) w1)"

definition emitMemberRemoved :: "MemberRemovedPayload \<Rightarrow> World \<Rightarrow> World" where
  "emitMemberRemoved p w =
     (if \<not> io w then w
      else
        let w1 = io_to_emit (''team:'' @ MemberRemovedPayload.teamId p) SocketEvents.MEMBER_REMOVED
                   (MemberRemoved p) None None w
        in io_to_emit (''user:'' @ memberId p) SocketEvents.MEMBER_REMOVED
             (MemberRemoved p) (Some True)
             (Some (''You have been removed from '' @ MemberRemovedPayload.teamName p)) w1)"

definition emitMemberRoleUpdated :: "MemberRoleUpdatedPayload \<Rightarrow> World \<Rightarrow> World" where
  "emitMemberRoleUpdated p w =
     (if \<not> io w then w
      else
        let w1 = io_to_emit (''team:'' @ MemberRoleUpdatedPayload.teamId p) MEMBER_ROLE_UPDATED
                   (MemberRoleUpdated p) None None w
        in io_to_emit (''user:'' @ UserRef.id (MemberRoleUpdatedPayload.member p)) MEMBER_ROLE_UPDATED
             (MemberRoleUpdated p) (Some True)
             (Some (''Your role in '' @ MemberRoleUpdatedPayload.teamName p
                    @ '' has been changed from '' @ TeamMemberRole_value (oldRole p)
                    @ '' to '' @ TeamMemberRole_value (newRole p))) w1)"

definition emitProjectCreated :: "ProjectCreatedPayload \<Rightarrow> World \<Rightarrow> World" where
  "emitProjectCreated p w =
     (if \<not> io w then w
      else io_to_emit (''team:'' @ ProjectCreatedPayload.teamId p) PROJECT_CREATED
             (ProjectCreated p) None None w)"

definition emitProjectUpdated :: "ProjectUpdatedPayload \<Rightarrow> World \<Rightarrow> World" where
  "emitProjectUpdated p w =
     (if \<not> io w then w
      else io_to_emit (''team:'' @ ProjectUpdatedPayload.teamId p) PROJECT_UPDATED
             (ProjectUpdated p) None None w)"

definition emitProjectDeleted :: "ProjectDeletedPayload \<Rightarrow> World \<Rightarrow> World" where
  "emitProjectDeleted p w =
     (if \<not> io w then w
      else io_to_emit (''team:'' @ ProjectDeletedPayload.teamId p) PROJECT_DELETED
             (ProjectDeleted p) None None w)"

section \<open>Team controller\<close>

text \<open>
  Each handler takes the store, \<open>req.user?.userId\<close>, the URL parameters and the validated
  body, and returns the response with the store it leaves behind. An early \<open>return\<close> of the
  source is a branch that returns the store it was given; an exception ends in the handler's
  \<open>catch\<close>, which answers \<open>serverError\<close> with the store as it is at that moment. The
  notification e-mail of \<open>inviteMember\<close> goes to an outside mail service and is not modelled.
\<close>

text \<open>
  \<open>createTeam\<close>: \<open>owner\<close> is a \<open>String\<close> path and keeps the user id as given; the member
  entry's \<open>userId\<close> is an \<open>ObjectId\<close> path, so \<open>save()\<close> casts the user id and rejects the
  document when it does not cast. \<open>new_id\<close> is the \<open>_id\<close> the driver generates.
\<close>

definition createTeam ::
  "World \<Rightarrow> string option \<Rightarrow> string \<Rightarrow> string \<Rightarrow> string option \<Rightarrow> ApiResponse \<times> World" where
  "createTeam w user new_id nm descr =
     (case requester user of
        None \<Rightarrow> (ResponseHandler_unauthorized AUTH_UNAUTHORIZED, w)
      | Some uid \<Rightarrow>
      (case castObjectId uid of
        None \<Rightarrow> (ResponseHandler_serverError GENERAL_INTERNAL_SERVER_ERROR, w)
      | Some member_id \<Rightarrow>
          let team = \<lparr>ITeam.name = nm, ITeam.description = descr, owner = uid,
                      members = [\<lparr>ITeamMember.userId = member_id, ITeamMember.role = OWNER,
                                  ITeamMember.joinedAt = now w\<rparr>]\<rparr>;
              w1 = Team_save new_id team w
          in (case populateUser w1 uid of
                None \<Rightarrow> (ResponseHandler_serverError GENERAL_INTERNAL_SERVER_ERROR, w1)
              | Some _ \<Rightarrow> (ResponseHandler_success ''Team created successfully'' 201, w1))))"

text \<open>
  In \<open>UpdateTeamDto\<close> both properties pass through \<open>value?.trim()\<close>, which turns \<open>null\<close> into
  \<open>undefined\<close>: a property is absent or a string.
\<close>

definition updateTeam ::
  "World \<Rightarrow> string option \<Rightarrow> string \<Rightarrow> string optional \<Rightarrow> string optional
     \<Rightarrow> ApiResponse \<times> World" where
  "updateTeam w user tid nm descr =
     (case requester user of
        None \<Rightarrow> (ResponseHandler_unauthorized AUTH_UNAUTHORIZED, w)
      | Some uid \<Rightarrow>
      (case Team_findById w tid of
        CastError \<Rightarrow> (ResponseHandler_serverError GENERAL_INTERNAL_SERVER_ERROR, w)
      | Missing \<Rightarrow> (ResponseHandler_notFound ''Team not found'', w)
      | Found team_id team \<Rightarrow>
          if \<not> isAdminOrOwner team uid
          then (ResponseHandler_error ''Only team admins or owners can update team details''
                  ''Forbidden'' 403, w)
          else
            let team_a = (case nm of Undefined \<Rightarrow> team | Defined x \<Rightarrow> team\<lparr>ITeam.name := x\<rparr>);
                team_b = (case descr of Undefined \<Rightarrow> team_a
                          | Defined x \<Rightarrow> team_a\<lparr>ITeam.description := Some x\<rparr>);
                w1 = Team_save team_id team_b w
            in (case populateUser w1 (owner team_b) of
                  None \<Rightarrow> (ResponseHandler_serverError GENERAL_INTERNAL_SERVER_ERROR, w1)
                | Some _ \<Rightarrow> (ResponseHandler_success ''Team updated successfully'' 200, w1))))"

definition deleteTeam :: "World \<Rightarrow> string option \<Rightarrow> string \<Rightarrow> ApiResponse \<times> World" where
  "deleteTeam w user tid =
     (case requester user of
        None \<Rightarrow> (ResponseHandler_unauthorized AUTH_UNAUTHORIZED, w)
      | Some uid \<Rightarrow>
      (case Team_findById w tid of
        CastError \<Rightarrow> (ResponseHandler_serverError GENERAL_INTERNAL_SERVER_ERROR, w)
      | Missing \<Rightarrow> (ResponseHandler_notFound ''Team not found'', w)
      | Found team_id team \<Rightarrow>
          if owner team \<noteq> uid
          then (ResponseHandler_error ''Only team owner can delete the team'' ''Forbidden'' 403, w)
          else (ResponseHandler_success ''Team deleted successfully'' 200,
                Team_findByIdAndDelete team_id w)))"

text \<open>
  \<open>inviteMember\<close>: the role of the body is absent (or \<open>null\<close>, which \<open>role || MEMBER\<close> treats
  alike) or a role.
\<close>

definition inviteMember ::
  "World \<Rightarrow> string option \<Rightarrow> string \<Rightarrow> string \<Rightarrow> TeamMemberRole optional \<Rightarrow> ApiResponse \<times> World" where
  "inviteMember w user tid eml rl =
     (case requester user of
        None \<Rightarrow> (ResponseHandler_unauthorized AUTH_UNAUTHORIZED, w)
      | Some uid \<Rightarrow>
      (case Team_findById w tid of
        CastError \<Rightarrow> (ResponseHandler_serverError GENERAL_INTERNAL_SERVER_ERROR, w)
      | Missing \<Rightarrow> (ResponseHandler_notFound ''Team not found'', w)
      | Found team_id team \<Rightarrow>
          if \<not> isAdminOrOwner team uid
          then (ResponseHandler_error ''Only team admins or owners can invite members''
                  ''Forbidden'' 403, w)
          else
      (case User_findOne_email w eml of
        None \<Rightarrow> (ResponseHandler_notFound ''User not found with this email'', w)
      | Some (invitee_id, userToInvite) \<Rightarrow>
          if isMember team invitee_id
          then (ResponseHandler_error ''User is already a member of this team'' ''Conflict'' 409, w)
          else
      (case User_findById w uid of
        CastError \<Rightarrow> (ResponseHandler_serverError GENERAL_INTERNAL_SERVER_ERROR, w)
      | Missing \<Rightarrow> (ResponseHandler_unauthorized AUTH_UNAUTHORIZED, w)
      | Found _ inviter \<Rightarrow>
          let given_role = (case rl of Undefined \<Rightarrow> MEMBER | Defined r \<Rightarrow> r);
              team_a = team\<lparr>members := members team @
                         [\<lparr>ITeamMember.userId = invitee_id, ITeamMember.role = given_role,
                           ITeamMember.joinedAt = now w\<rparr>]\<rparr>;
              w1 = Team_save team_id team_a w;
              w2 = emitMemberJoined
                     \<lparr>MemberJoinedPayload.teamId = team_id,
                      MemberJoinedPayload.teamName = ITeam.name team_a,
                      MemberJoinedPayload.member =
                        \<lparr>JoinedMember.id = invitee_id, JoinedMember.name = IUser.name userToInvite,
                         JoinedMember.email = IUser.email userToInvite,
                         JoinedMember.role = given_role, JoinedMember.joinedAt = now w\<rparr>,
                      addedBy = \<lparr>UserRef.id = uid, UserRef.name = IUser.name inviter,
                                 UserRef.email = IUser.email inviter\<rparr>\<rparr> w1
          in (ResponseHandler_success ''Member added to team successfully'' 201, w2)))))"

text \<open>
  \<open>removeMember\<close>: the two \<open>User.findById\<close> calls stand between the checks and the
  \<open>splice\<close>; each throws when its id does not cast.
\<close>

definition removeMember ::
  "World \<Rightarrow> string option \<Rightarrow> string \<Rightarrow> string \<Rightarrow> ApiResponse \<times> World" where
  "removeMember w user tid mid =
     (case requester user of
        None \<Rightarrow> (ResponseHandler_unauthorized AUTH_UNAUTHORIZED, w)
      | Some uid \<Rightarrow>
      (case Team_findById w tid of
        CastError \<Rightarrow> (ResponseHandler_serverError GENERAL_INTERNAL_SERVER_ERROR, w)
      | Missing \<Rightarrow> (ResponseHandler_notFound ''Team not found'', w)
      | Found team_id team \<Rightarrow>
          if \<not> isAdminOrOwner team uid
          then (ResponseHandler_error ''Only team admins or owners can remove members''
                  ''Forbidden'' 403, w)
          else if owner team = mid
          then (ResponseHandler_error ''Cannot remove team owner'' ''Bad Request'' 400, w)
          else
      (case findIndex (\<lambda>m. ITeamMember.userId m = mid) (members team) of
        None \<Rightarrow> (ResponseHandler_notFound ''Member not found in this team'', w)
      | Some memberIndex \<Rightarrow>
          let removedMember = User_findById w mid;
              remover = User_findById w uid
          in if removedMember = CastError \<or> remover = CastError
             then (ResponseHandler_serverError GENERAL_INTERNAL_SERVER_ERROR, w)
             else
               let team_a = team\<lparr>members := splice1 memberIndex (members team)\<rparr>;
                   w1 = Team_save team_id team_a w;
                   w2 = (case (removedMember, remover) of
                           (Found _ rm, Found _ rv) \<Rightarrow>
                             emitMemberRemoved
                               \<lparr>MemberRemovedPayload.teamId = team_id,
                                MemberRemovedPayload.teamName = ITeam.name team_a,
                                memberId = mid, memberName = IUser.name rm,
                                removedBy = \<lparr>UserRef.id = uid, UserRef.name = IUser.name rv,
                                             UserRef.email = IUser.email rv\<rparr>\<rparr> w1
                         | _ \<Rightarrow> w1)
               in (ResponseHandler_success ''Member removed from team successfully'' 200, w2))))"

definition updateMemberRole ::
  "World \<Rightarrow> string option \<Rightarrow> string \<Rightarrow> string \<Rightarrow> TeamMemberRole \<Rightarrow> ApiResponse \<times> World" where
  "updateMemberRole w user tid mid rl =
     (case requester user of
        None \<Rightarrow> (ResponseHandler_unauthorized AUTH_UNAUTHORIZED, w)
      | Some uid \<Rightarrow>
      (case Team_findById w tid of
        CastError \<Rightarrow> (ResponseHandler_serverError GENERAL_INTERNAL_SERVER_ERROR, w)
      | Missing \<Rightarrow> (ResponseHandler_notFound ''Team not found'', w)
      | Found team_id team \<Rightarrow>
          if owner team \<noteq> uid
          then (ResponseHandler_error ''Only team owner can update member roles''
                  ''Forbidden'' 403, w)
          else if owner team = mid
          then (ResponseHandler_error ''Cannot update team owner role'' ''Bad Request'' 400, w)
          else
      (case findIndex (\<lambda>m. ITeamMember.userId m = mid) (members team) of
        None \<Rightarrow> (ResponseHandler_notFound ''Member not found in this team'', w)
      | Some i \<Rightarrow>
          let old_role = ITeamMember.role (members team ! i);
              memberUser = User_findById w mid;
              updater = User_findById w uid
          in if memberUser = CastError \<or> updater = CastError
             then (ResponseHandler_serverError GENERAL_INTERNAL_SERVER_ERROR, w)
             else
               let team_a = team\<lparr>members :=
                              (members team)[i := (members team ! i)\<lparr>ITeamMember.role := rl\<rparr>]\<rparr>;
                   w1 = Team_save team_id team_a w;
                   w2 = (case (memberUser, updater) of
                           (Found _ mu, Found _ up) \<Rightarrow>
                             emitMemberRoleUpdated
                               \<lparr>MemberRoleUpdatedPayload.teamId = team_id,
                                MemberRoleUpdatedPayload.teamName = ITeam.name team_a,
                                MemberRoleUpdatedPayload.member =
                                  \<lparr>UserRef.id = mid, UserRef.name = IUser.name mu,
                                   UserRef.email = IUser.email mu\<rparr>,
                                oldRole = old_role, newRole = rl,
                                MemberRoleUpdatedPayload.updatedBy =
                                  \<lparr>UserRef.id = uid, UserRef.name = IUser.name up,
                                   UserRef.email = IUser.email up\<rparr>\<rparr> w1
                         | _ \<Rightarrow> w1)
               in (ResponseHandler_success ''Member role updated successfully'' 200, w2))))"

definition leaveTeam :: "World \<Rightarrow> string option \<Rightarrow> string \<Rightarrow> ApiResponse \<times> World" where
  "leaveTeam w user tid =
     (case requester user of
        None \<Rightarrow> (ResponseHandler_unauthorized AUTH_UNAUTHORIZED, w)
      | Some uid \<Rightarrow>
      (case Team_findById w tid of
        CastError \<Rightarrow> (ResponseHandler_serverError GENERAL_INTERNAL_SERVER_ERROR, w)
      | Missing \<Rightarrow> (ResponseHandler_notFound ''Team not found'', w)
      | Found team_id team \<Rightarrow>
          if owner team = uid
          then (ResponseHandler_error
                  ''Team owner cannot leave. Please transfer ownership or delete the team.''
                  ''Bad Request'' 400, w)
          else
      (case findIndex (\<lambda>m. ITeamMember.userId m = uid) (members team) of
        None \<Rightarrow> (ResponseHandler_error ''You are not a member of this team'' ''Bad Request'' 400, w)
      | Some memberIndex \<Rightarrow>
          (ResponseHandler_success ''Left team successfully'' 200,
           Team_save team_id (team\<lparr>members := splice1 memberIndex (members team)\<rparr>) w))))"

section \<open>Project controller\<close>

text \<open>
  The three mutating handlers. \<open>createProject\<close> stores \<open>teamId\<close> and \<open>createdBy\<close> in
  \<open>ObjectId\<close> paths (cast at \<open>save()\<close>), while the activity and the broadcast carry the
  \<open>teamId\<close> string of the body as it came. The response of \<open>createProject\<close> and
  \<open>updateProject\<close> reads \<open>_id\<close> of the populated creator, which throws when that user
  document is gone; the project is saved and the activity logged by then.
\<close>

definition createProject ::
  "World \<Rightarrow> string option \<Rightarrow> string \<Rightarrow> string \<Rightarrow> string option \<Rightarrow> string
     \<Rightarrow> ApiResponse \<times> World" where
  "createProject w user new_id nm descr tid =
     (case requester user of
        None \<Rightarrow> (ResponseHandler_unauthorized AUTH_UNAUTHORIZED, w)
      | Some uid \<Rightarrow>
      (case Team_findById w tid of
        CastError \<Rightarrow> (ResponseHandler_serverError GENERAL_INTERNAL_SERVER_ERROR, w)
      | Missing \<Rightarrow> (ResponseHandler_notFound PROJECT_TEAM_NOT_FOUND, w)
      | Found team_id team \<Rightarrow>
          if \<not> isMember team uid
          then (ResponseHandler_forbidden PROJECT_NOT_TEAM_MEMBER, w)
          else
      (case castObjectId uid of
        None \<Rightarrow> (ResponseHandler_serverError GENERAL_INTERNAL_SERVER_ERROR, w)
      | Some creator_id \<Rightarrow>
          let p = \<lparr>IProject.name = nm, IProject.description = descr,
                   IProject.teamId = team_id, IProject.createdBy = creator_id\<rparr>;
              w1 = Project_save new_id p w;
              w2 = logActivity uid tid CREATED PROJECT new_id (ProjectMeta nm) w1
          in (case populateUser w2 creator_id of
                None \<Rightarrow> (ResponseHandler_serverError GENERAL_INTERNAL_SERVER_ERROR, w2)
              | Some creator \<Rightarrow>
                  (ResponseHandler_success ''Project created successfully'' 201,
                   emitProjectCreated
                     \<lparr>ProjectCreatedPayload.project =
                        \<lparr>ProjectView.id = new_id, ProjectView.name = nm,
                         ProjectView.description = descr\<rparr>,
                      ProjectCreatedPayload.teamId = tid,
                      ProjectCreatedPayload.createdBy = creator\<rparr> w2)))))"

text \<open>
  \<open>updateProject\<close>: both body properties pass through \<open>value?.trim()\<close>, so each is absent
  or a string. The activity is logged with \<open>project.teamId.toString()\<close> before \<open>populate\<close>,
  which prints the id. The broadcast takes the same expression after
  \<open>populate('teamId', 'name')\<close>, where it prints the populated team document and not its
  id; that text comes from the library's \<open>inspect\<close> and is taken as the parameter
  \<open>printed_team\<close>.
\<close>

definition updateProject ::
  "World \<Rightarrow> string option \<Rightarrow> string \<Rightarrow> string optional \<Rightarrow> string optional \<Rightarrow> string
     \<Rightarrow> ApiResponse \<times> World" where
  "updateProject w user pid nm descr printed_team =
     (case requester user of
        None \<Rightarrow> (ResponseHandler_unauthorized AUTH_UNAUTHORIZED, w)
      | Some uid \<Rightarrow>
      (case Project_findById w pid of
        CastError \<Rightarrow> (ResponseHandler_serverError GENERAL_INTERNAL_SERVER_ERROR, w)
      | Missing \<Rightarrow> (ResponseHandler_notFound PROJECT_NOT_FOUND, w)
      | Found project_id p0 \<Rightarrow>
      (case teams w (IProject.teamId p0) of
        None \<Rightarrow> (ResponseHandler_notFound PROJECT_TEAM_NOT_FOUND, w)
      | Some team \<Rightarrow>
          if \<not> isAdminOrOwner team uid
          then (ResponseHandler_forbidden PROJECT_UNAUTHORIZED, w)
          else
            let c0 = \<lparr>ProjectChanges.name = None, ProjectChanges.description = None\<rparr>;
                (p1, c1) = (case nm of
                              Undefined \<Rightarrow> (p0, c0)
                            | Defined x \<Rightarrow> (p0\<lparr>IProject.name := x\<rparr>,
                                            c0\<lparr>ProjectChanges.name := Some (IProject.name p0, x)\<rparr>));
                (p2, c2) = (case descr of
                              Undefined \<Rightarrow> (p1, c1)
                            | Defined x \<Rightarrow>
                                (p1\<lparr>IProject.description := Some x\<rparr>,
                                 c1\<lparr>ProjectChanges.description :=
                                      Some (IProject.description p1, x)\<rparr>));
                w1 = Project_save project_id p2 w;
                w2 = logActivity uid (IProject.teamId p2) UPDATED PROJECT project_id
                       (ProjectUpdatedMeta (IProject.name p2) c2) w1;
                updater = User_findById w2 uid
            in if updater = CastError
               then (ResponseHandler_serverError GENERAL_INTERNAL_SERVER_ERROR, w2)
               else
                 (case populateUser w2 (IProject.createdBy p2) of
                    None \<Rightarrow> (ResponseHandler_serverError GENERAL_INTERNAL_SERVER_ERROR, w2)
                  | Some _ \<Rightarrow>
                      (ResponseHandler_success ''Project updated successfully'' 200,
                       case updater of
                         Found _ u \<Rightarrow>
                           emitProjectUpdated
                             \<lparr>ProjectUpdatedPayload.project =
                                \<lparr>ProjectView.id = project_id, ProjectView.name = IProject.name p2,
                                 ProjectView.description = IProject.description p2\<rparr>,
                              ProjectUpdatedPayload.changes = c2,
                              ProjectUpdatedPayload.teamId = printed_team,
                              ProjectUpdatedPayload.updatedBy =
                                \<lparr>UserRef.id = uid, UserRef.name = IUser.name u,
                                 UserRef.email = IUser.email u\<rparr>\<rparr> w2
                       | _ \<Rightarrow> w2)))))"

text \<open>
  \<open>deleteProject\<close> deletes first and looks the deleter up next; the activity and the
  broadcast carry the \<open>projectId\<close> string of the URL.
\<close>

definition deleteProject :: "World \<Rightarrow> string option \<Rightarrow> string \<Rightarrow> ApiResponse \<times> World" where
  "deleteProject w user pid =
     (case requester user of
        None \<Rightarrow> (ResponseHandler_unauthorized AUTH_UNAUTHORIZED, w)
      | Some uid \<Rightarrow>
      (case Project_findById w pid of
        CastError \<Rightarrow> (ResponseHandler_serverError GENERAL_INTERNAL_SERVER_ERROR, w)
      | Missing \<Rightarrow> (ResponseHandler_notFound PROJECT_NOT_FOUND, w)
      | Found project_id p0 \<Rightarrow>
      (case teams w (IProject.teamId p0) of
        None \<Rightarrow> (ResponseHandler_notFound PROJECT_TEAM_NOT_FOUND, w)
      | Some team \<Rightarrow>
          if \<not> isAdminOrOwner team uid
          then (ResponseHandler_forbidden PROJECT_UNAUTHORIZED, w)
          else
            let w1 = Project_findByIdAndDelete project_id w;
                deleter = User_findById w1 uid
            in if deleter = CastError
               then (ResponseHandler_serverError GENERAL_INTERNAL_SERVER_ERROR, w1)
               else
                 let w2 = logActivity uid (IProject.teamId p0) DELETED PROJECT pid
                            (ProjectMeta (IProject.name p0)) w1;
                     w3 = (case deleter of
                             Found _ d \<Rightarrow>
                               emitProjectDeleted
                                 \<lparr>ProjectDeletedPayload.projectId = pid,
                                  ProjectDeletedPayload.projectName = IProject.name p0,
                                  ProjectDeletedPayload.teamId = IProject.teamId p0,
                                  ProjectDeletedPayload.deletedBy =
                                    \<lparr>UserRef.id = uid, UserRef.name = IUser.name d,
                                     UserRef.email = IUser.email d\<rparr>\<rparr> w2
                           | _ \<Rightarrow> w2)
                 in (ResponseHandler_success ''Project deleted successfully'' 200, w3))))"

section \<open>Task controller\<close>

subsection \<open>The validated request bodies (modules/task/dtos)\<close>

text \<open>
  What \<open>validateRequest\<close> hands to the handlers. \<open>@IsOptional\<close> lets \<open>null\<close> pass and the
  middleware keeps an explicit \<open>null\<close> of the body, except for the properties transformed
  with \<open>value?.trim()\<close> (\<open>title\<close>, \<open>description\<close>), where \<open>null\<close> becomes \<open>undefined\<close>.
  So in \<open>CreateTaskDto\<close> \<open>priority\<close> and \<open>status\<close> are a value (the class default when
  the body leaves them out) or \<open>null\<close> (\<open>None\<close>); in \<open>UpdateTaskDto\<close> every property may be
  absent, and \<open>priority\<close>, \<open>status\<close>, \<open>dueDate\<close> and \<open>assignee\<close> may be an explicit \<open>null\<close>
  (inner \<open>None\<close>). An assignee that is a string has 24 hexadecimal digits.
\<close>

record CreateTaskDto =
  title :: string
  description :: "string option"
  priority :: "TaskPriority option"
  status :: "TaskStatus option"
  dueDate :: "date option"
  assignee :: "string option"
  projectId :: string

record UpdateTaskDto =
  title :: "string optional"
  description :: "string optional"
  priority :: "TaskPriority option optional"
  status :: "TaskStatus option optional"
  dueDate :: "date option optional"
  assignee :: "string option optional"

subsection \<open>Pieces shared by the handlers\<close>

text \<open>
  The assignee check, written twice in the source (\<open>createTask\<close> and \<open>updateTask\<close>) with the
  same text: it runs only for a truthy assignee, and answers the response to return, if any.
  \<open>User.findById\<close> casts the string; \<open>team.isMember\<close> compares it as it came.
\<close>

definition verifyAssignee :: "World \<Rightarrow> ITeam \<Rightarrow> string option \<Rightarrow> ApiResponse option" where
  "verifyAssignee w team a =
     (case a of
        None \<Rightarrow> None
      | Some aid \<Rightarrow>
          if aid = [] then None
          else (case User_findById w aid of
                  CastError \<Rightarrow> Some (ResponseHandler_serverError GENERAL_INTERNAL_SERVER_ERROR)
                | Missing \<Rightarrow> Some (ResponseHandler_notFound TASK_ASSIGNEE_NOT_FOUND)
                | Found _ _ \<Rightarrow>
                    if \<not> isMember team aid
                    then Some (ResponseHandler_error ''Assignee must be a member of the team''
                                 ''Invalid Assignee'' 400)
                    else None))"

text \<open>
  An assignee on its way into the \<open>ObjectId\<close> path \<open>Task.assignee\<close>: nothing, or the
  ObjectId the string casts to, or (outer \<open>None\<close>) a string that does not cast, with which
  \<open>save()\<close> rejects the document.
\<close>

definition castAssignee :: "string option \<Rightarrow> string option option" where
  "castAssignee a =
     (case a of
        None \<Rightarrow> Some None
      | Some s \<Rightarrow> (case castObjectId s of None \<Rightarrow> None | Some k \<Rightarrow> Some (Some k)))"

text \<open>\<open>oldAssignee !== updateData.assignee\<close> for a stored id or \<open>undefined\<close> against an id or \<open>null\<close>.\<close>

definition assigneeDiffers :: "string option \<Rightarrow> string option \<Rightarrow> bool" where
  "assigneeDiffers old_a new_a = (case new_a of None \<Rightarrow> True | Some s \<Rightarrow> old_a \<noteq> Some s)"

definition truthy :: "string option \<Rightarrow> bool" where
  "truthy a = (case a of None \<Rightarrow> False | Some s \<Rightarrow> s \<noteq> [])"

text \<open>
  The task as the handlers answer and broadcast it, after \<open>populate\<close>: the project by its
  \<open>_id\<close> and name, the assignee and the creator resolved to user references (\<open>null\<close> when
  the user document is gone).
\<close>

definition taskResponse ::
  "World \<Rightarrow> string \<Rightarrow> ITask \<Rightarrow> string \<times> IProject \<Rightarrow> UserRef \<Rightarrow> TaskResponse" where
  "taskResponse w kid t p creator =
     \<lparr>TaskResponse.id = kid, TaskResponse.title = ITask.title t,
      TaskResponse.description = ITask.description t, TaskResponse.priority = ITask.priority t,
      TaskResponse.status = ITask.status t, TaskResponse.dueDate = ITask.dueDate t,
      TaskResponse.assignee =
        (case ITask.assignee t of None \<Rightarrow> None | Some aid \<Rightarrow> populateUser w aid),
      TaskResponse.project = (fst p, IProject.name (snd p)),
      TaskResponse.createdBy = creator\<rparr>"

subsection \<open>createTask\<close>

text \<open>
  \<open>new Task({...taskData, createdBy: userId})\<close> and \<open>save()\<close>: a \<open>null\<close> priority or status
  fails the \<open>required\<close> validators and an assignee that does not cast fails its path, so
  \<open>save()\<close> throws and nothing is written. \<open>projectId\<close> and \<open>createdBy\<close> are \<open>String\<close> paths.
\<close>

definition createTask ::
  "World \<Rightarrow> string option \<Rightarrow> string \<Rightarrow> CreateTaskDto \<Rightarrow> ApiResponse \<times> World" where
  "createTask w user new_id taskData =
     (case requester user of
        None \<Rightarrow> (ResponseHandler_unauthorized AUTH_UNAUTHORIZED, w)
      | Some uid \<Rightarrow>
      (case Project_findById w (CreateTaskDto.projectId taskData) of
        CastError \<Rightarrow> (ResponseHandler_serverError GENERAL_INTERNAL_SERVER_ERROR, w)
      | Missing \<Rightarrow> (ResponseHandler_notFound TASK_PROJECT_NOT_FOUND, w)
      | Found project_id proj \<Rightarrow>
      (case teams w (IProject.teamId proj) of
        None \<Rightarrow> (ResponseHandler_notFound TASK_TEAM_NOT_FOUND, w)
      | Some team \<Rightarrow>
          if \<not> isMember team uid
          then (ResponseHandler_error TASK_NOT_TEAM_MEMBER ''Forbidden'' 403, w)
          else
      (case verifyAssignee w team (CreateTaskDto.assignee taskData) of
        Some refusal \<Rightarrow> (refusal, w)
      | None \<Rightarrow>
      (case (CreateTaskDto.priority taskData, CreateTaskDto.status taskData,
             castAssignee (CreateTaskDto.assignee taskData)) of
        (Some prio, Some st, Some stored_assignee) \<Rightarrow>
          let t = \<lparr>ITask.title = CreateTaskDto.title taskData,
                   ITask.description = CreateTaskDto.description taskData,
                   ITask.priority = prio,
                   ITask.status = st,
                   ITask.dueDate = CreateTaskDto.dueDate taskData,
                   ITask.assignee = stored_assignee,
                   ITask.projectId = CreateTaskDto.projectId taskData,
                   ITask.createdBy = uid\<rparr>;
              w1 = Task_save new_id t w;
              w2 = logActivity uid (IProject.teamId proj) CREATED TASK new_id
                     (TaskCreatedMeta (ITask.title t) (ITask.priority t) (ITask.status t)
                        (ITask.assignee t)) w1
          in (case populateUser w2 uid of
                None \<Rightarrow> (ResponseHandler_serverError GENERAL_INTERNAL_SERVER_ERROR, w2)
              | Some creator \<Rightarrow>
                  (ResponseHandler_success ''Task created successfully'' 201,
                   emitTaskCreated
                     \<lparr>TaskCreatedPayload.task =
                        taskResponse w2 new_id t (project_id, proj) creator,
                      TaskCreatedPayload.teamId = IProject.teamId proj,
                      TaskCreatedPayload.projectId = project_id\<rparr> w2))
      | _ \<Rightarrow> (ResponseHandler_serverError GENERAL_INTERNAL_SERVER_ERROR, w))))))"

subsection \<open>updateTask\<close>

text \<open>
  The in-memory assignments of \<open>updateTask\<close>, in the order of the source: title,
  description, priority, then the status with its transition check (an early \<open>return\<close>, so
  \<open>Inl\<close>), then due date and assignee. Nothing is written to the store here. A \<open>null\<close>
  status is looked up in the table like any other value and is not there. Where the request
  assigns a \<open>null\<close> priority or an assignee that does not cast, the document returned keeps
  the old value: \<open>savable\<close> is false for such a request, \<open>save()\<close> throws, and the document is
  not used.
\<close>

definition TaskStatus_text :: "TaskStatus option \<Rightarrow> string" where
  "TaskStatus_text x = (case x of None \<Rightarrow> ''null'' | Some s \<Rightarrow> TaskStatus_value s)"

definition transitionError :: "ITask \<Rightarrow> TaskStatus option \<Rightarrow> ApiResponse" where
  "transitionError t x =
     ResponseHandler_error
       (''Cannot transition from '' @ TaskStatus_value (ITask.status t) @ '' to '' @ TaskStatus_text x)
       ''Invalid Status Transition'' 400"

definition applyUpdate :: "ITask \<Rightarrow> UpdateTaskDto \<Rightarrow> ApiResponse + (ITask \<times> TaskChanges)" where
  "applyUpdate t0 updateData =
     (let oldAssignee = ITask.assignee t0;
          c0 = \<lparr>TaskChanges.title = None, TaskChanges.priority = None,
                TaskChanges.status = None, TaskChanges.assignee = None\<rparr>;
          (t1, c1) = (case UpdateTaskDto.title updateData of
                        Undefined \<Rightarrow> (t0, c0)
                      | Defined x \<Rightarrow> (t0\<lparr>ITask.title := x\<rparr>,
                                      c0\<lparr>TaskChanges.title := Some (ITask.title t0, x)\<rparr>));
          t2 = (case UpdateTaskDto.description updateData of
                  Undefined \<Rightarrow> t1
                | Defined x \<Rightarrow> t1\<lparr>ITask.description := Some x\<rparr>);
          (t3, c3) = (case UpdateTaskDto.priority updateData of
                        Undefined \<Rightarrow> (t2, c1)
                      | Defined x \<Rightarrow>
                          ((case x of None \<Rightarrow> t2 | Some p \<Rightarrow> t2\<lparr>ITask.priority := p\<rparr>),
                           c1\<lparr>TaskChanges.priority := Some (ITask.priority t2, x)\<rparr>));
          checked = (case UpdateTaskDto.status updateData of
                       Undefined \<Rightarrow> Inr (t3, c3)
                     | Defined None \<Rightarrow> Inl (transitionError t3 None)
                     | Defined (Some x) \<Rightarrow>
                         if \<not> canTransitionTo t3 x then Inl (transitionError t3 (Some x))
                         else Inr (t3\<lparr>ITask.status := x\<rparr>,
                                   c3\<lparr>TaskChanges.status := Some (ITask.status t3, x)\<rparr>))
      in case checked of
           Inl refusal \<Rightarrow> Inl refusal
         | Inr (t4, c4) \<Rightarrow>
             let t5 = (case UpdateTaskDto.dueDate updateData of
                         Undefined \<Rightarrow> t4
                       | Defined d \<Rightarrow> t4\<lparr>ITask.dueDate := d\<rparr>)
             in (case UpdateTaskDto.assignee updateData of
                   Undefined \<Rightarrow> Inr (t5, c4)
                 | Defined a \<Rightarrow>
                     Inr ((case castAssignee a of
                             None \<Rightarrow> t5
                           | Some stored \<Rightarrow> t5\<lparr>ITask.assignee := stored\<rparr>),
                          c4\<lparr>TaskChanges.assignee := Some (oldAssignee, a)\<rparr>)))"

text \<open>What \<open>task.save()\<close> validates of the request's assignments.\<close>

definition savable :: "UpdateTaskDto \<Rightarrow> bool" where
  "savable updateData =
     (UpdateTaskDto.priority updateData \<noteq> Defined None
      \<and> (case UpdateTaskDto.assignee updateData of
            Undefined \<Rightarrow> True
          | Defined a \<Rightarrow> castAssignee a \<noteq> None))"

text \<open>The three \<open>logActivity\<close> calls that follow \<open>task.save()\<close>.\<close>

definition logUpdate ::
  "string \<Rightarrow> string \<Rightarrow> string \<Rightarrow> ITask \<Rightarrow> ITask \<Rightarrow> TaskChanges \<Rightarrow> UpdateTaskDto \<Rightarrow> World \<Rightarrow> World" where
  "logUpdate uid tid kid t0 t c updateData w =
     (let oldAssignee = ITask.assignee t0;
          old_status = ITask.status t0;
          w1 = logActivity uid tid UPDATED TASK kid (TaskUpdatedMeta (ITask.title t) c) w;
          w2 = (case UpdateTaskDto.assignee updateData of
                  Undefined \<Rightarrow> w1
                | Defined a \<Rightarrow>
                    if assigneeDiffers oldAssignee a
                    then logActivity uid tid (if truthy a then ASSIGNED else UNASSIGNED) TASK kid
                           (TaskAssigneeMeta (ITask.title t) oldAssignee a) w1
                    else w1)
      in case UpdateTaskDto.status updateData of
           Defined (Some x) \<Rightarrow>
             if old_status \<noteq> x
             then logActivity uid tid STATUS_CHANGED TASK kid
                    (TaskStatusMeta (ITask.title t) old_status x) w2
             else w2
         | _ \<Rightarrow> w2)"

text \<open>
  The broadcasts that close \<open>updateTask\<close>, for the updater found (\<open>None\<close> when the user
  document is gone). Reading \<open>_id\<close> of a populated assignee that is \<open>null\<close> throws, which the
  handler's \<open>catch\<close> turns into a server error: the flag returned is false then, and what
  was emitted before stays emitted.
\<close>

definition emitUpdate ::
  "string \<Rightarrow> IUser option \<Rightarrow> string \<Rightarrow> string \<Rightarrow> string \<Rightarrow> ITask \<Rightarrow> ITask \<Rightarrow> TaskChanges
     \<Rightarrow> UpdateTaskDto \<Rightarrow> TaskResponse \<Rightarrow> World \<Rightarrow> World \<times> bool" where
  "emitUpdate uid updater tid kid pid t0 t c updateData view w =
     (case updater of
        None \<Rightarrow> (w, True)
      | Some u \<Rightarrow>
          let by = \<lparr>UserRef.id = uid, UserRef.name = IUser.name u,
                    UserRef.email = IUser.email u\<rparr>;
              w1 = emitTaskUpdated
                     \<lparr>TaskUpdatedPayload.task = view, TaskUpdatedPayload.changes = c,
                      TaskUpdatedPayload.teamId = tid,
                      TaskUpdatedPayload.projectId = pid,
                      TaskUpdatedPayload.updatedBy = by\<rparr> w;
              w2 = (case UpdateTaskDto.status updateData of
                      Defined (Some x) \<Rightarrow>
                        if ITask.status t0 \<noteq> x
                        then emitTaskStatusChanged
                               \<lparr>TaskStatusChangedPayload.taskId = kid,
                                TaskStatusChangedPayload.taskTitle = ITask.title t,
                                TaskStatusChangedPayload.oldStatus = ITask.status t0,
                                TaskStatusChangedPayload.newStatus = x,
                                TaskStatusChangedPayload.teamId = tid,
                                TaskStatusChangedPayload.projectId = pid,
                                changedBy = by\<rparr> w1
                        else w1
                    | _ \<Rightarrow> w1)
          in (case UpdateTaskDto.assignee updateData of
                Undefined \<Rightarrow> (w2, True)
              | Defined a \<Rightarrow>
                  if assigneeDiffers (ITask.assignee t0) a \<and> truthy a
                  then (case TaskResponse.assignee view of
                          None \<Rightarrow> (w2, False)
                        | Some ref \<Rightarrow>
                            (emitTaskAssigned
                               \<lparr>TaskAssignedPayload.taskId = kid,
                                TaskAssignedPayload.taskTitle = ITask.title t,
                                TaskAssignedPayload.assignee = ref,
                                TaskAssignedPayload.teamId = tid,
                                TaskAssignedPayload.projectId = pid,
                                assignedBy = by\<rparr> w2, True))
                  else (w2, True)))"

text \<open>
  \<open>updateTask\<close>. After \<open>save()\<close> and the activities come \<open>populate\<close>, the lookup of the
  updater (which throws when the user id does not cast), the response (which reads \<open>_id\<close>
  of the populated creator) and the broadcasts.
\<close>

definition updateTask ::
  "World \<Rightarrow> string option \<Rightarrow> string \<Rightarrow> UpdateTaskDto \<Rightarrow> ApiResponse \<times> World" where
  "updateTask w user kid updateData =
     (case requester user of
        None \<Rightarrow> (ResponseHandler_unauthorized AUTH_UNAUTHORIZED, w)
      | Some uid \<Rightarrow>
      (case Task_findById w kid of
        CastError \<Rightarrow> (ResponseHandler_serverError GENERAL_INTERNAL_SERVER_ERROR, w)
      | Missing \<Rightarrow> (ResponseHandler_notFound TASK_NOT_FOUND, w)
      | Found task_id t0 \<Rightarrow>
      (case populateProject w (ITask.projectId t0) of
        None \<Rightarrow> (ResponseHandler_serverError GENERAL_INTERNAL_SERVER_ERROR, w)
      | Some (project_id, proj) \<Rightarrow>
      (case teams w (IProject.teamId proj) of
        None \<Rightarrow> (ResponseHandler_error TASK_UNAUTHORIZED ''Forbidden'' 403, w)
      | Some team \<Rightarrow>
          if \<not> isMember team uid
          then (ResponseHandler_error TASK_UNAUTHORIZED ''Forbidden'' 403, w)
          else
      (case verifyAssignee w team
              (case UpdateTaskDto.assignee updateData of Undefined \<Rightarrow> None | Defined a \<Rightarrow> a) of
        Some refusal \<Rightarrow> (refusal, w)
      | None \<Rightarrow>
      (case applyUpdate t0 updateData of
        Inl refusal \<Rightarrow> (refusal, w)
      | Inr (t, c) \<Rightarrow>
          if \<not> savable updateData
          then (ResponseHandler_serverError GENERAL_INTERNAL_SERVER_ERROR, w)
          else
            let tid = IProject.teamId proj;
                w1 = Task_save task_id t w;
                w2 = logUpdate uid tid task_id t0 t c updateData w1;
                updater = User_findById w2 uid
            in if updater = CastError
               then (ResponseHandler_serverError GENERAL_INTERNAL_SERVER_ERROR, w2)
               else
                 (case populateUser w2 (ITask.createdBy t) of
                    None \<Rightarrow> (ResponseHandler_serverError GENERAL_INTERNAL_SERVER_ERROR, w2)
                  | Some creator \<Rightarrow>
                      (case emitUpdate uid (case updater of Found _ u \<Rightarrow> Some u | _ \<Rightarrow> None)
                              tid task_id project_id t0 t c updateData
                              (taskResponse w2 task_id t (project_id, proj) creator) w2 of
                         (w3, ok) \<Rightarrow>
                           if ok then (ResponseHandler_success ''Task updated successfully'' 200, w3)
                           else (ResponseHandler_serverError GENERAL_INTERNAL_SERVER_ERROR,
                                 w3)))))))))"

subsection \<open>updateTaskStatus\<close>

text \<open>\<open>UpdateTaskStatusDto\<close> requires the status (\<open>@IsNotEmpty\<close>), so it is a value of the enum.\<close>

definition updateTaskStatus ::
  "World \<Rightarrow> string option \<Rightarrow> string \<Rightarrow> TaskStatus \<Rightarrow> ApiResponse \<times> World" where
  "updateTaskStatus w user kid st =
     (case requester user of
        None \<Rightarrow> (ResponseHandler_unauthorized AUTH_UNAUTHORIZED, w)
      | Some uid \<Rightarrow>
      (case Task_findById w kid of
        CastError \<Rightarrow> (ResponseHandler_serverError GENERAL_INTERNAL_SERVER_ERROR, w)
      | Missing \<Rightarrow> (ResponseHandler_notFound TASK_NOT_FOUND, w)
      | Found task_id t0 \<Rightarrow>
      (case populateProject w (ITask.projectId t0) of
        None \<Rightarrow> (ResponseHandler_serverError GENERAL_INTERNAL_SERVER_ERROR, w)
      | Some (project_id, proj) \<Rightarrow>
      (case teams w (IProject.teamId proj) of
        None \<Rightarrow> (ResponseHandler_error TASK_UNAUTHORIZED ''Forbidden'' 403, w)
      | Some team \<Rightarrow>
          if \<not> isMember team uid
          then (ResponseHandler_error TASK_UNAUTHORIZED ''Forbidden'' 403, w)
          else if \<not> canTransitionTo t0 st
          then (transitionError t0 (Some st), w)
          else
            let old_status = ITask.status t0;
                t = t0\<lparr>ITask.status := st\<rparr>;
                w1 = Task_save task_id t w
            in (case User_findById w1 uid of
                  CastError \<Rightarrow> (ResponseHandler_serverError GENERAL_INTERNAL_SERVER_ERROR, w1)
                | Missing \<Rightarrow> (ResponseHandler_success ''Task status updated successfully'' 200, w1)
                | Found _ updater \<Rightarrow>
                    (ResponseHandler_success ''Task status updated successfully'' 200,
                     emitTaskStatusChanged
                       \<lparr>TaskStatusChangedPayload.taskId = task_id,
                        TaskStatusChangedPayload.taskTitle = ITask.title t,
                        TaskStatusChangedPayload.oldStatus = old_status,
                        TaskStatusChangedPayload.newStatus = st,
                        TaskStatusChangedPayload.teamId = IProject.teamId proj,
                        TaskStatusChangedPayload.projectId = project_id,
                        changedBy = \<lparr>UserRef.id = uid, UserRef.name = IUser.name updater,
                                     UserRef.email = IUser.email updater\<rparr>\<rparr> w1))))))"

subsection \<open>deleteTask\<close>

text \<open>
  \<open>deleteTask\<close> deletes first and looks the deleter up next; the activity and the broadcast
  carry the \<open>taskId\<close> string of the URL.
\<close>

definition deleteTask :: "World \<Rightarrow> string option \<Rightarrow> string \<Rightarrow> ApiResponse \<times> World" where
  "deleteTask w user kid =
     (case requester user of
        None \<Rightarrow> (ResponseHandler_unauthorized AUTH_UNAUTHORIZED, w)
      | Some uid \<Rightarrow>
      (case Task_findById w kid of
        CastError \<Rightarrow> (ResponseHandler_serverError GENERAL_INTERNAL_SERVER_ERROR, w)
      | Missing \<Rightarrow> (ResponseHandler_notFound TASK_NOT_FOUND, w)
      | Found task_id t0 \<Rightarrow>
      (case populateProject w (ITask.projectId t0) of
        None \<Rightarrow> (ResponseHandler_serverError GENERAL_INTERNAL_SERVER_ERROR, w)
      | Some (project_id, proj) \<Rightarrow>
      (case teams w (IProject.teamId proj) of
        None \<Rightarrow> (ResponseHandler_notFound TASK_TEAM_NOT_FOUND, w)
      | Some team \<Rightarrow>
          if \<not> isAdminOrOwner team uid \<and> ITask.createdBy t0 \<noteq> uid
          then (ResponseHandler_error ''Only team admins/owners or task creator can delete tasks''
                  ''Forbidden'' 403, w)
          else
            let w1 = Task_findByIdAndDelete task_id w;
                deleter = User_findById w1 uid
            in if deleter = CastError
               then (ResponseHandler_serverError GENERAL_INTERNAL_SERVER_ERROR, w1)
               else
                 let w2 = logActivity uid (IProject.teamId proj) DELETED TASK kid
                            (TaskDeletedMeta (ITask.title t0)) w1;
                     w3 = (case deleter of
                             Found _ d \<Rightarrow>
                               emitTaskDeleted
                                 \<lparr>TaskDeletedPayload.taskId = kid,
                                  TaskDeletedPayload.taskTitle = ITask.title t0,
                                  TaskDeletedPayload.teamId = IProject.teamId proj,
                                  TaskDeletedPayload.projectId = project_id,
                                  TaskDeletedPayload.deletedBy =
                                    \<lparr>UserRef.id = uid, UserRef.name = IUser.name d,
                                     UserRef.email = IUser.email d\<rparr>\<rparr> w2
                           | _ \<Rightarrow> w2)
                 in (ResponseHandler_success ''Task deleted successfully'' 200, w3)))))"

section \<open>modules/team/dtos: the role of a request body\<close>

text \<open>
  Both DTO classes decorate \<open>role\<close> with \<open>@IsEnum(TeamMemberRole, ...)\<close>, which accepts the
  values of the enum object, \<open>'owner'\<close> included; the text of the message names two of them.
  \<open>InviteMemberDto\<close> makes the property optional with the class default \<open>member\<close>;
  \<open>UpdateMemberRoleDto\<close> requires it (\<open>@IsNotEmpty\<close>). The result is the messages of the
  failed constraints (their order is not significant) or the role handed to the controller.
\<close>

definition TeamMemberRole_values :: "(string \<times> TeamMemberRole) list" where
  "TeamMemberRole_values = [(''owner'', OWNER), (''admin'', ADMIN), (''member'', MEMBER)]"

definition InviteMemberDto_role :: "string optional \<Rightarrow> string list + TeamMemberRole" where
  "InviteMemberDto_role raw =
     (case raw of
        Undefined \<Rightarrow> Inr MEMBER
      | Defined v \<Rightarrow>
          (case map_of TeamMemberRole_values v of
             None \<Rightarrow> Inl [''Role must be either admin or member'']
           | Some r \<Rightarrow> Inr r))"

definition UpdateMemberRoleDto_role :: "string optional \<Rightarrow> string list + TeamMemberRole" where
  "UpdateMemberRoleDto_role raw =
     (case raw of
        Undefined \<Rightarrow> Inl [''Role is required'', ''Role must be either admin or member'']
      | Defined v \<Rightarrow>
          (case map_of TeamMemberRole_values v of
             None \<Rightarrow>
               if v = [] then Inl [''Role is required'', ''Role must be either admin or member'']
               else Inl [''Role must be either admin or member'']
           | Some r \<Rightarrow> Inr r))"

section \<open>A small installation\<close>

text \<open>
  Three users; one team owned by the first, with the second as a plain member and the third
  outside; one project of the team; one task of the project, in status \<open>todo\<close> and
  unassigned. The Socket.IO server is up.
\<close>

abbreviation U1 :: string where "U1 \<equiv> ''64b0f0a1c2d3e4f5a6b7c801''"
abbreviation U2 :: string where "U2 \<equiv> ''64b0f0a1c2d3e4f5a6b7c802''"
abbreviation U3 :: string where "U3 \<equiv> ''64b0f0a1c2d3e4f5a6b7c803''"
abbreviation T1 :: string where "T1 \<equiv> ''64b0f0a1c2d3e4f5a6b7c8a1''"
abbreviation P1 :: string where "P1 \<equiv> ''64b0f0a1c2d3e4f5a6b7c8b1''"
abbreviation K1 :: string where "K1 \<equiv> ''64b0f0a1c2d3e4f5a6b7c8c1''"

definition team1 :: ITeam where
  "team1 =
     \<lparr>ITeam.name = ''Core'', ITeam.description = None, owner = U1,
      members =
        [\<lparr>ITeamMember.userId = U1, ITeamMember.role = OWNER, ITeamMember.joinedAt = 10\<rparr>,
         \<lparr>ITeamMember.userId = U2, ITeamMember.role = MEMBER, ITeamMember.joinedAt = 20\<rparr>]\<rparr>"

definition task1 :: ITask where
  "task1 =
     \<lparr>ITask.title = ''Write the report'', ITask.description = None, ITask.priority = MEDIUM,
      ITask.status = TODO, ITask.dueDate = None, ITask.assignee = None,
      ITask.projectId = P1, ITask.createdBy = U1\<rparr>"

definition installation :: World where
  "installation =
     \<lparr>users =
        [(U1, \<lparr>IUser.name = ''Asha'', IUser.email = ''asha@example.com''\<rparr>),
         (U2, \<lparr>IUser.name = ''Bram'', IUser.email = ''bram@example.com''\<rparr>),
         (U3, \<lparr>IUser.name = ''Chen'', IUser.email = ''chen@example.com''\<rparr>)],
      teams = [T1 \<mapsto> team1],
      projects = [P1 \<mapsto> \<lparr>IProject.name = ''Reports'', IProject.description = None,
                             IProject.teamId = T1, IProject.createdBy = U1\<rparr>],
      tasks = [K1 \<mapsto> task1],
      activities = [],
      io = True,
      emitted = [],
      now = 1000\<rparr>"

text \<open>Four payloads about the installation: the second user removed, joined, promoted, assigned.\<close>

definition asha :: UserRef where
  "asha = \<lparr>UserRef.id = U1, UserRef.name = ''Asha'', UserRef.email = ''asha@example.com''\<rparr>"

definition bram :: UserRef where
  "bram = \<lparr>UserRef.id = U2, UserRef.name = ''Bram'', UserRef.email = ''bram@example.com''\<rparr>"

definition removal1 :: MemberRemovedPayload where
  "removal1 =
     \<lparr>MemberRemovedPayload.teamId = T1, MemberRemovedPayload.teamName = ''Core'',
      memberId = U2, memberName = ''Bram'', removedBy = asha\<rparr>"

definition joining1 :: MemberJoinedPayload where
  "joining1 =
     \<lparr>MemberJoinedPayload.teamId = T1, MemberJoinedPayload.teamName = ''Core'',
      MemberJoinedPayload.member =
        \<lparr>JoinedMember.id = U2, JoinedMember.name = ''Bram'',
         JoinedMember.email = ''bram@example.com'', JoinedMember.role = MEMBER,
         JoinedMember.joinedAt = 20\<rparr>,
      addedBy = asha\<rparr>"

definition promotion1 :: MemberRoleUpdatedPayload where
  "promotion1 =
     \<lparr>MemberRoleUpdatedPayload.teamId = T1, MemberRoleUpdatedPayload.teamName = ''Core'',
      MemberRoleUpdatedPayload.member = bram, oldRole = MEMBER, newRole = ADMIN,
      MemberRoleUpdatedPayload.updatedBy = asha\<rparr>"

definition assignment1 :: TaskAssignedPayload where
  "assignment1 =
     \<lparr>TaskAssignedPayload.taskId = K1, TaskAssignedPayload.taskTitle = ''Write the report'',
      TaskAssignedPayload.assignee = bram, TaskAssignedPayload.teamId = T1,
      TaskAssignedPayload.projectId = P1, assignedBy = asha\<rparr>"

text \<open>
  Three update requests for the task of the installation, which is in status \<open>todo\<close>:
  a new title with the unreachable status \<open>review\<close>; the same with the outsider as assignee;
  and the reachable status \<open>in_progress\<close> with the plain member as assignee.
\<close>

definition update_review :: UpdateTaskDto where
  "update_review =
     \<lparr>UpdateTaskDto.title = Defined ''Write the annual report'',
      UpdateTaskDto.description = Undefined, UpdateTaskDto.priority = Undefined,
      UpdateTaskDto.status = Defined (Some REVIEW), UpdateTaskDto.dueDate = Undefined,
      UpdateTaskDto.assignee = Undefined\<rparr>"

definition update_review_outsider :: UpdateTaskDto where
  "update_review_outsider = update_review\<lparr>UpdateTaskDto.assignee := Defined (Some U3)\<rparr>"


text \<open>A creation request for the project of the installation, assigned to the outsider.\<close>

definition create_for_outsider :: CreateTaskDto where
  "create_for_outsider =
     \<lparr>CreateTaskDto.title = ''Collect the figures'', CreateTaskDto.description = None,
      CreateTaskDto.priority = Some MEDIUM, CreateTaskDto.status = Some TODO,
      CreateTaskDto.dueDate = None, CreateTaskDto.assignee = Some U3,
      CreateTaskDto.projectId = P1\<rparr>"


section \<open>Task transition engine\<close>

lemma map_of_transitions:
  "map_of transitions TODO = Some [IN_PROGRESS, DONE]"
  "map_of transitions IN_PROGRESS = Some [TODO, REVIEW, DONE]"
  "map_of transitions REVIEW = Some [IN_PROGRESS, DONE]"
  "map_of transitions DONE = Some [TODO, IN_PROGRESS, REVIEW]"
  by (simp_all add: transitions_def)

text \<open>
  C1. For every pair of a current and a requested status, \<open>canTransitionTo\<close> is true exactly
  for the ten edges todo \<rightarrow> in_progress, done; in_progress \<rightarrow> todo, review, done;
  review \<rightarrow> in_progress, done; done \<rightarrow> todo, in_progress, review. Every other pair is
  refused, and so is every same-status pair.
\<close>

theorem canTransitionTo_adjacency:
  "canTransitionTo this requested =
     ((ITask.status this, requested) \<in>
        {(TODO, IN_PROGRESS), (TODO, DONE),
         (IN_PROGRESS, TODO), (IN_PROGRESS, REVIEW), (IN_PROGRESS, DONE),
         (REVIEW, IN_PROGRESS), (REVIEW, DONE),
         (DONE, TODO), (DONE, IN_PROGRESS), (DONE, REVIEW)})
   \<and> \<not> canTransitionTo (this\<lparr>ITask.status := requested\<rparr>) requested"
  by (cases "ITask.status this"; cases requested;
      simp add: canTransitionTo_def map_of_transitions)

section \<open>Looking documents up by id\<close>

lemma findById_Found: "findById coll s = Found k d \<longleftrightarrow> castObjectId s = Some k \<and> coll k = Some d"
  by (auto simp: findById_def split: option.splits)

lemma findById_CastError: "findById coll s = CastError \<longleftrightarrow> castObjectId s = None"
  by (auto simp: findById_def split: option.splits)


lemma findById_cast:
  "castObjectId s = Some k \<Longrightarrow>
     findById coll s = (case coll k of None \<Rightarrow> Missing | Some d \<Rightarrow> Found k d)"
  by (simp add: findById_def)

lemma castObjectId_length: "castObjectId s = Some k \<Longrightarrow> length s = 24"
  by (simp add: castObjectId_def split: if_splits)

lemma castObjectId_ids:
  "castObjectId U1 = Some U1" "castObjectId U2 = Some U2" "castObjectId U3 = Some U3"
  "castObjectId T1 = Some T1" "castObjectId P1 = Some P1" "castObjectId K1 = Some K1"
  by (simp_all add: castObjectId_def isHexDigit_def toLowerHex_def)

lemma installation_simps:
  "users installation =
        [(U1, \<lparr>IUser.name = ''Asha'', IUser.email = ''asha@example.com''\<rparr>),
         (U2, \<lparr>IUser.name = ''Bram'', IUser.email = ''bram@example.com''\<rparr>),
         (U3, \<lparr>IUser.name = ''Chen'', IUser.email = ''chen@example.com''\<rparr>)]"
  "teams installation T1 = Some team1"
  "projects installation P1 = Some \<lparr>IProject.name = ''Reports'', IProject.description = None,
                             IProject.teamId = T1, IProject.createdBy = U1\<rparr>"
  "tasks installation K1 = Some task1"
  "activities installation = []"
  "io installation"
  "emitted installation = []"
  "now installation = 1000"
  by (simp_all add: installation_def)

lemma team1_simps:
  "owner team1 = U1"
  "ITeam.name team1 = ''Core''"
  "members team1 =
        [\<lparr>ITeamMember.userId = U1, ITeamMember.role = OWNER, ITeamMember.joinedAt = 10\<rparr>,
         \<lparr>ITeamMember.userId = U2, ITeamMember.role = MEMBER, ITeamMember.joinedAt = 20\<rparr>]"
  by (simp_all add: team1_def)

lemma task1_simps:
  "ITask.status task1 = TODO" "ITask.projectId task1 = P1" "ITask.assignee task1 = None"
  "ITask.title task1 = ''Write the report''" "ITask.createdBy task1 = U1"
  by (simp_all add: task1_def)

lemma installation_lookups:
  "Team_findById installation T1 = Found T1 team1"
  "Task_findById installation K1 = Found K1 task1"
  "Project_findById installation P1 =
     Found P1 \<lparr>IProject.name = ''Reports'', IProject.description = None,
               IProject.teamId = T1, IProject.createdBy = U1\<rparr>"
  "populateProject installation P1 =
     Some (P1, \<lparr>IProject.name = ''Reports'', IProject.description = None,
                IProject.teamId = T1, IProject.createdBy = U1\<rparr>)"
  by (simp_all add: Team_findById_def Task_findById_def Project_findById_def populateProject_def
      findById_cast castObjectId_ids installation_simps)

lemma installation_users:
  assumes "users w = users installation"
  shows "User_findById w U1 = Found U1 \<lparr>IUser.name = ''Asha'', IUser.email = ''asha@example.com''\<rparr>"
    and "User_findById w U2 = Found U2 \<lparr>IUser.name = ''Bram'', IUser.email = ''bram@example.com''\<rparr>"
    and "User_findById w U3 = Found U3 \<lparr>IUser.name = ''Chen'', IUser.email = ''chen@example.com''\<rparr>"
    and "populateUser w U1 = Some asha" and "populateUser w U2 = Some bram"
  using assms
  by (simp_all add: populateUser_def User_findById_def findById_cast castObjectId_ids
      installation_simps asha_def bram_def)

section \<open>Authorization model\<close>

lemma isMember_iff: "isMember t uid \<longleftrightarrow> uid \<in> ITeamMember.userId ` set (members t)"
  by (auto simp: isMember_def list_ex_iff)

lemma team1_isMember: "isMember team1 U1" "isMember team1 U2" "\<not> isMember team1 U3"
  by (simp_all add: isMember_def team1_simps)

lemma findIndex_Some:
  "findIndex P xs = Some i \<Longrightarrow>
     i < length xs \<and> P (xs ! i) \<and> (\<forall>x \<in> set (take i xs). \<not> P x)"
proof (induction xs arbitrary: i)
  case Nil
  then show ?case by simp
next
  case (Cons x xs)
  show ?case
  proof (cases "P x")
    case True
    with Cons.prems show ?thesis by simp
  next
    case False
    with Cons.prems obtain j where j: "findIndex P xs = Some j" "i = Suc j"
      by auto
    from Cons.IH [OF j(1)] False j(2) show ?thesis by simp
  qed
qed

lemma findIndex_None: "findIndex P xs = None \<longleftrightarrow> (\<forall>x \<in> set xs. \<not> P x)"
  by (induction xs) auto

lemma findIndex_split:
  assumes "findIndex P xs = Some i"
  shows "xs = take i xs @ (xs ! i) # drop (Suc i) xs"
  using findIndex_Some [OF assms] by (simp add: id_take_nth_drop)

lemma findIndex_exists:
  "mid \<in> f ` set xs \<Longrightarrow> \<exists>i. findIndex (\<lambda>m. f m = mid) xs = Some i"
  by (cases "findIndex (\<lambda>m. f m = mid) xs") (auto simp: findIndex_None)

lemma teams_emit:
  "teams (emitMemberJoined p1 w) = teams w"
  "teams (emitMemberRemoved p2 w) = teams w"
  "teams (emitMemberRoleUpdated p3 w) = teams w"
  by (simp_all add: emitMemberJoined_def emitMemberRemoved_def emitMemberRoleUpdated_def
      io_to_emit_def Let_def)

lemma teams_Team_save: "teams (Team_save k t w) = (teams w)(k \<mapsto> t)"
  by (simp add: Team_save_def)

lemma teams_Team_delete: "teams (Team_findByIdAndDelete k w) = (teams w)(k := None)"
  by (simp add: Team_findByIdAndDelete_def)

lemma ran_upd_listed:
  assumes "\<forall>t \<in> ran m. isMember t (owner t)" and "isMember t' (owner t')"
  shows "\<forall>t \<in> ran (m(k \<mapsto> t')). isMember t (owner t)"
  using assms by (auto simp: ran_def split: if_splits)

lemma ran_del_listed:
  assumes "\<forall>t \<in> ran m. isMember t (owner t)"
  shows "\<forall>t \<in> ran (m(k := None)). isMember t (owner t)"
  using assms by (auto simp: ran_def split: if_splits)

lemma splice1_keeps:
  assumes "findIndex (\<lambda>m. ITeamMember.userId m = mid) ms = Some i" and "x \<noteq> mid"
    and "x \<in> ITeamMember.userId ` set ms"
  shows "x \<in> ITeamMember.userId ` set (splice1 i ms)"
proof -
  from findIndex_split [OF assms(1)] findIndex_Some [OF assms(1)]
  have s: "ms = take i ms @ (ms ! i) # drop (Suc i) ms" and m: "ITeamMember.userId (ms ! i) = mid"
    by simp_all
  from assms(3) obtain e where e: "e \<in> set ms" "ITeamMember.userId e = x" by auto
  from e(1) s have "e \<in> set (take i ms) \<or> e = ms ! i \<or> e \<in> set (drop (Suc i) ms)"
    by (metis Un_iff set_ConsD set_append)
  with e(2) m assms(2) have "e \<in> set (take i ms) \<or> e \<in> set (drop (Suc i) ms)" by auto
  with e(2) show ?thesis by (auto simp: splice1_def)
qed

lemma createTeam_listed:
  assumes "\<forall>t \<in> ran (teams w). isMember t (owner t)"
    and "case requester user of None \<Rightarrow> True | Some uid \<Rightarrow> castObjectId uid = Some uid"
  shows "\<forall>t \<in> ran (teams (snd (createTeam w user new_id nm descr))). isMember t (owner t)"
proof (cases "requester user")
  case None
  with assms(1) show ?thesis by (simp add: createTeam_def)
next
  case (Some uid)
  with assms(2) have c: "castObjectId uid = Some uid" by simp
  let ?team = "\<lparr>ITeam.name = nm, ITeam.description = descr, owner = uid,
                   members = [\<lparr>ITeamMember.userId = uid, ITeamMember.role = OWNER,
                               ITeamMember.joinedAt = now w\<rparr>]\<rparr>"
  have "isMember ?team (owner ?team)"
    by (simp add: isMember_def)
  from ran_upd_listed [OF assms(1) this, of new_id] Some c show ?thesis
    by (simp add: createTeam_def Let_def teams_Team_save split: option.splits)
qed

lemma updateTeam_listed:
  assumes "\<forall>t \<in> ran (teams w). isMember t (owner t)"
  shows "\<forall>t \<in> ran (teams (snd (updateTeam w user tid unm udescr))). isMember t (owner t)"
proof (cases "\<exists>uid k team. requester user = Some uid \<and> Team_findById w tid = Found k team
                \<and> isAdminOrOwner team uid")
  case False
  then have "snd (updateTeam w user tid unm udescr) = w"
    by (auto simp: updateTeam_def split: option.splits lookup.splits)
  with assms show ?thesis by simp
next
  case True
  then obtain uid k team where g: "requester user = Some uid" "Team_findById w tid = Found k team"
    "isAdminOrOwner team uid" by blast
  from g(2) have "teams w k = Some team" by (simp add: Team_findById_def findById_Found)
  with assms have l: "isMember team (owner team)" by (auto simp: ran_def)
  define team' where "team' =
     (case udescr of Undefined \<Rightarrow> (case unm of Undefined \<Rightarrow> team | Defined x \<Rightarrow> team\<lparr>ITeam.name := x\<rparr>)
      | Defined x \<Rightarrow> (case unm of Undefined \<Rightarrow> team | Defined x \<Rightarrow> team\<lparr>ITeam.name := x\<rparr>)
                       \<lparr>ITeam.description := Some x\<rparr>)"
  have l': "isMember team' (owner team')"
    using l by (simp add: team'_def isMember_def split: optional.splits)
  have "teams (snd (updateTeam w user tid unm udescr)) = (teams w)(k \<mapsto> team')"
    using g by (simp add: updateTeam_def Let_def teams_Team_save team'_def split: option.splits)
  with ran_upd_listed [OF assms l'] show ?thesis by simp
qed

lemma deleteTeam_listed:
  assumes "\<forall>t \<in> ran (teams w). isMember t (owner t)"
  shows "\<forall>t \<in> ran (teams (snd (deleteTeam w user tid))). isMember t (owner t)"
  using assms ran_del_listed [OF assms]
  by (simp add: deleteTeam_def teams_Team_delete split: option.splits lookup.splits)

lemma ran_upd_members:
  assumes "\<forall>t \<in> ran (teams w). isMember t (owner t)"
    and "Team_findById w tid = Found k team"
    and "owner team \<in> ITeamMember.userId ` set (members team) \<Longrightarrow>
         owner team \<in> ITeamMember.userId ` set ms"
  shows "\<forall>t \<in> ran ((teams w)(k \<mapsto> team\<lparr>members := ms\<rparr>)). isMember t (owner t)"
proof -
  from assms(2) have "teams w k = Some team" by (simp add: Team_findById_def findById_Found)
  with assms(1) have "isMember team (owner team)" by (auto simp: ran_def)
  with assms(3) have "isMember (team\<lparr>members := ms\<rparr>) (owner (team\<lparr>members := ms\<rparr>))"
    by (simp add: isMember_iff)
  from ran_upd_listed [OF assms(1) this] show ?thesis .
qed

lemma inviteMember_teams:
  "teams (snd (inviteMember w user tid eml rl)) = teams w
   \<or> (\<exists>k team e. Team_findById w tid = Found k team
        \<and> teams (snd (inviteMember w user tid eml rl)) =
            (teams w)(k \<mapsto> team\<lparr>members := members team @ [e]\<rparr>))"
  by (auto simp: inviteMember_def Let_def teams_Team_save teams_emit
      split: option.splits lookup.splits prod.splits)

lemma inviteMember_listed:
  assumes "\<forall>t \<in> ran (teams w). isMember t (owner t)"
  shows "\<forall>t \<in> ran (teams (snd (inviteMember w user tid eml rl))). isMember t (owner t)"
  using inviteMember_teams [of w user tid eml rl]
proof (elim disjE exE conjE)
  assume "teams (snd (inviteMember w user tid eml rl)) = teams w"
  with assms show ?thesis by simp
next
  fix k team e
  assume f: "Team_findById w tid = Found k team"
    and t: "teams (snd (inviteMember w user tid eml rl)) =
            (teams w)(k \<mapsto> team\<lparr>members := members team @ [e]\<rparr>)"
  from ran_upd_members [OF assms f, of "members team @ [e]"] t show ?thesis by simp
qed

lemma removeMember_teams:
  "teams (snd (removeMember w user tid mid)) = teams w
   \<or> (\<exists>k team i. Team_findById w tid = Found k team \<and> owner team \<noteq> mid
        \<and> findIndex (\<lambda>m. ITeamMember.userId m = mid) (members team) = Some i
        \<and> teams (snd (removeMember w user tid mid)) =
            (teams w)(k \<mapsto> team\<lparr>members := splice1 i (members team)\<rparr>))"
  by (auto simp: removeMember_def Let_def teams_Team_save teams_emit
      split: option.splits lookup.splits prod.splits)

lemma removeMember_listed:
  assumes "\<forall>t \<in> ran (teams w). isMember t (owner t)"
  shows "\<forall>t \<in> ran (teams (snd (removeMember w user tid mid))). isMember t (owner t)"
  using removeMember_teams [of w user tid mid]
proof (elim disjE exE conjE)
  assume "teams (snd (removeMember w user tid mid)) = teams w"
  with assms show ?thesis by simp
next
  fix k team i
  assume f: "Team_findById w tid = Found k team" and o: "owner team \<noteq> mid"
    and i: "findIndex (\<lambda>m. ITeamMember.userId m = mid) (members team) = Some i"
    and t: "teams (snd (removeMember w user tid mid)) =
            (teams w)(k \<mapsto> team\<lparr>members := splice1 i (members team)\<rparr>)"
  from ran_upd_members [OF assms f splice1_keeps [OF i o]] t show ?thesis by simp
qed

lemma updateMemberRole_teams:
  "teams (snd (updateMemberRole w user tid mid rl)) = teams w
   \<or> (\<exists>k team i. Team_findById w tid = Found k team
        \<and> teams (snd (updateMemberRole w user tid mid rl)) =
            (teams w)(k \<mapsto> team\<lparr>members :=
               (members team)[i := (members team ! i)\<lparr>ITeamMember.role := rl\<rparr>]\<rparr>))"
  by (auto simp: updateMemberRole_def Let_def teams_Team_save teams_emit
      split: option.splits lookup.splits prod.splits)

lemma role_update_ids:
  "ITeamMember.userId ` set (ms[i := (ms ! i)\<lparr>ITeamMember.role := rl\<rparr>])
     = ITeamMember.userId ` set ms"
proof -
  have "map ITeamMember.userId (ms[i := (ms ! i)\<lparr>ITeamMember.role := rl\<rparr>])
          = map ITeamMember.userId ms"
    by (cases "i < length ms")
       (simp_all add: map_update list_update_same_conv list_update_beyond)
  then show ?thesis by (metis set_map)
qed

lemma updateMemberRole_listed:
  assumes "\<forall>t \<in> ran (teams w). isMember t (owner t)"
  shows "\<forall>t \<in> ran (teams (snd (updateMemberRole w user tid mid rl))). isMember t (owner t)"
  using updateMemberRole_teams [of w user tid mid rl]
proof (elim disjE exE conjE)
  assume "teams (snd (updateMemberRole w user tid mid rl)) = teams w"
  with assms show ?thesis by simp
next
  fix k team i
  assume f: "Team_findById w tid = Found k team"
    and t: "teams (snd (updateMemberRole w user tid mid rl)) =
            (teams w)(k \<mapsto> team\<lparr>members :=
               (members team)[i := (members team ! i)\<lparr>ITeamMember.role := rl\<rparr>]\<rparr>)"
  from ran_upd_members [OF assms f,
      of "(members team)[i := (members team ! i)\<lparr>ITeamMember.role := rl\<rparr>]"] t
  show ?thesis by (simp add: role_update_ids)
qed

lemma leaveTeam_teams:
  "teams (snd (leaveTeam w user tid)) = teams w
   \<or> (\<exists>k team i uid. Team_findById w tid = Found k team \<and> owner team \<noteq> uid
        \<and> findIndex (\<lambda>m. ITeamMember.userId m = uid) (members team) = Some i
        \<and> teams (snd (leaveTeam w user tid)) =
            (teams w)(k \<mapsto> team\<lparr>members := splice1 i (members team)\<rparr>))"
  by (auto simp: leaveTeam_def Let_def teams_Team_save
      split: option.splits lookup.splits prod.splits)

lemma leaveTeam_listed:
  assumes "\<forall>t \<in> ran (teams w). isMember t (owner t)"
  shows "\<forall>t \<in> ran (teams (snd (leaveTeam w user tid))). isMember t (owner t)"
  using leaveTeam_teams [of w user tid]
proof (elim disjE exE conjE)
  assume "teams (snd (leaveTeam w user tid)) = teams w"
  with assms show ?thesis by simp
next
  fix k team i uid
  assume f: "Team_findById w tid = Found k team" and o: "owner team \<noteq> uid"
    and i: "findIndex (\<lambda>m. ITeamMember.userId m = uid) (members team) = Some i"
    and t: "teams (snd (leaveTeam w user tid)) =
            (teams w)(k \<mapsto> team\<lparr>members := splice1 i (members team)\<rparr>)"
  from ran_upd_members [OF assms f splice1_keeps [OF i o]] t show ?thesis by simp
qed

lemma teams_store:
  "teams (Task_save a t w) = teams w"
  "teams (Task_findByIdAndDelete a w) = teams w"
  "teams (Project_save b p w) = teams w"
  "teams (Project_findByIdAndDelete b w) = teams w"
  "teams (logActivity u1 u2 u3 u4 u5 u6 w) = teams w"
  "teams (emitTaskCreated q1 w) = teams w"
  "teams (emitTaskUpdated q2 w) = teams w"
  "teams (emitTaskDeleted q3 w) = teams w"
  "teams (emitTaskStatusChanged q4 w) = teams w"
  "teams (emitTaskAssigned q5 w) = teams w"
  "teams (emitProjectCreated q6 w) = teams w"
  "teams (emitProjectUpdated q7 w) = teams w"
  "teams (emitProjectDeleted q8 w) = teams w"
  by (simp_all add: Task_save_def Task_findByIdAndDelete_def Project_save_def
      Project_findByIdAndDelete_def logActivity_def emitTaskCreated_def emitTaskUpdated_def
      emitTaskDeleted_def emitTaskStatusChanged_def emitTaskAssigned_def emitProjectCreated_def
      emitProjectUpdated_def emitProjectDeleted_def io_to_emit_def Let_def)

lemma teams_logUpdate: "teams (logUpdate uid tid kid t0 t c d w) = teams w"
  by (simp add: logUpdate_def Let_def teams_store split: optional.splits option.splits)

lemma teams_emitUpdate:
  "teams (fst (emitUpdate uid updater tid kid pid t0 t c d view w)) = teams w"
  by (simp add: emitUpdate_def Let_def teams_store split: optional.splits option.splits)

lemma project_handlers_teams:
  "teams (snd (createProject w user new_id nm descr tid)) = teams w"
  "teams (snd (updateProject w user pid unm udescr printed)) = teams w"
  "teams (snd (deleteProject w user pid)) = teams w"
  by (simp_all add: createProject_def updateProject_def deleteProject_def Let_def teams_store
      split: option.splits lookup.splits prod.splits optional.splits)

lemma task_handlers_teams:
  "teams (snd (createTask w user new_id taskData)) = teams w"
  "teams (snd (updateTaskStatus w user kid st)) = teams w"
  "teams (snd (deleteTask w user kid)) = teams w"
  by (simp_all add: createTask_def updateTaskStatus_def deleteTask_def Let_def teams_store
      split: option.splits lookup.splits prod.splits)

lemma updateTask_teams: "teams (snd (updateTask w user kid d)) = teams w"
proof -
  have "teams w' = teams w0"
    if "emitUpdate uid updater tid k pid t0 t c d view w0 = (w', ok)"
    for uid updater tid k pid t0 t c view w0 w' ok
    using teams_emitUpdate [of uid updater tid k pid t0 t c d view w0] that by simp
  then show ?thesis
    by (auto simp: updateTask_def Let_def teams_store teams_logUpdate
        split: option.splits lookup.splits prod.splits sum.splits)
qed

text \<open>
  C2 (as amended). \<open>isMember\<close> is true exactly for the ids that appear in \<open>members\<close>; the
  \<open>owner\<close> field is not consulted. What makes it true for the owner is the data: \<open>createTeam\<close>
  writes the creator (the id of the token, which is an ObjectId string) both as \<open>owner\<close> and
  as the single member entry, with role \<open>owner\<close>; and if every stored team lists its owner
  among its members, it still does after any handler of the team controller (create, update
  and delete team, invite member, remove member, update member role, leave team), whatever
  the request and its outcome, while the handlers of the project and task controllers leave
  the teams as they are.
\<close>

theorem isMember_members_only:
  assumes "\<forall>t \<in> ran (teams w). isMember t (owner t)"
    and "case requester user of None \<Rightarrow> True | Some uid \<Rightarrow> castObjectId uid = Some uid"
  shows "isMember team x = (x \<in> ITeamMember.userId ` set (members team))
       \<and> (\<forall>uid. requester user = Some uid \<longrightarrow>
            (\<exists>t. teams (snd (createTeam w user new_id nm descr)) new_id = Some t
               \<and> owner t = uid
               \<and> map (\<lambda>m. (ITeamMember.userId m, ITeamMember.role m)) (members t)
                   = [(uid, OWNER)]))
       \<and> (\<forall>t \<in> ran (teams (snd (createTeam w user new_id nm descr))). isMember t (owner t))
       \<and> (\<forall>t \<in> ran (teams (snd (updateTeam w user tid unm udescr))). isMember t (owner t))
       \<and> (\<forall>t \<in> ran (teams (snd (deleteTeam w user tid))). isMember t (owner t))
       \<and> (\<forall>t \<in> ran (teams (snd (inviteMember w user tid eml rl))). isMember t (owner t))
       \<and> (\<forall>t \<in> ran (teams (snd (removeMember w user tid mid))). isMember t (owner t))
       \<and> (\<forall>t \<in> ran (teams (snd (updateMemberRole w user tid mid r))). isMember t (owner t))
       \<and> (\<forall>t \<in> ran (teams (snd (leaveTeam w user tid))). isMember t (owner t))
       \<and> teams (snd (createProject w user new_id nm pdescr tid)) = teams w
       \<and> teams (snd (updateProject w user pid unm udescr printed)) = teams w
       \<and> teams (snd (deleteProject w user pid)) = teams w
       \<and> teams (snd (createTask w user new_id taskData)) = teams w
       \<and> teams (snd (updateTask w user kid d)) = teams w
       \<and> teams (snd (updateTaskStatus w user kid st)) = teams w
       \<and> teams (snd (deleteTask w user kid)) = teams w"
proof -
  have c: "\<forall>uid. requester user = Some uid \<longrightarrow>
            (\<exists>t. teams (snd (createTeam w user new_id nm descr)) new_id = Some t
               \<and> owner t = uid
               \<and> map (\<lambda>m. (ITeamMember.userId m, ITeamMember.role m)) (members t)
                   = [(uid, OWNER)])"
    using assms(2)
    by (auto simp: createTeam_def Let_def teams_Team_save split: option.splits)
  show ?thesis
    by (intro conjI isMember_iff c createTeam_listed [OF assms] updateTeam_listed [OF assms(1)]
        deleteTeam_listed [OF assms(1)] inviteMember_listed [OF assms(1)]
        removeMember_listed [OF assms(1)] updateMemberRole_listed [OF assms(1)]
        leaveTeam_listed [OF assms(1)] project_handlers_teams task_handlers_teams
        updateTask_teams)
qed

theorem isMember_members_only_witness:
  "ran (teams installation) = {team1} \<and> isMember team1 (owner team1)
   \<and> (case requester (Some U2) of None \<Rightarrow> True | Some uid \<Rightarrow> castObjectId uid = Some uid)
   \<and> isMember team1 U3 = (U3 \<in> ITeamMember.userId ` set (members team1))
   \<and> (\<exists>t. teams (snd (createTeam installation (Some U2) ''64b0f0a1c2d3e4f5a6b7c8a2''
                         ''Ops'' None)) ''64b0f0a1c2d3e4f5a6b7c8a2'' = Some t
          \<and> owner t = U2
          \<and> map (\<lambda>m. (ITeamMember.userId m, ITeamMember.role m)) (members t) = [(U2, OWNER)]
          \<and> isMember t (owner t))
   \<and> (\<exists>t. teams (snd (leaveTeam installation (Some U2) T1)) T1 = Some t
          \<and> map ITeamMember.userId (members t) = [U1]
          \<and> isMember t (owner t))"
proof -
  have r: "ran (teams installation) = {team1}"
    by (simp add: installation_def)
  have l: "isMember team1 (owner team1)" by (simp add: team1_simps team1_isMember)
  have h1: "\<forall>t \<in> ran (teams installation). isMember t (owner t)" using r l by simp
  have q: "requester (Some U2) = Some U2" by (simp add: requester_def)
  have h2: "case requester (Some U2) of None \<Rightarrow> True | Some uid \<Rightarrow> castObjectId uid = Some uid"
    by (simp add: q castObjectId_ids)
  note k = isMember_members_only [OF h1 h2, where new_id = "''64b0f0a1c2d3e4f5a6b7c8a2''"
      and nm = "''Ops''" and descr = None and tid = T1 and team = team1 and x = U3]
  have a: "isMember team1 U3 = (U3 \<in> ITeamMember.userId ` set (members team1))"
    by (rule k [THEN conjunct1])
  have "requester (Some U2) = Some U2 \<longrightarrow>
          (\<exists>t. teams (snd (createTeam installation (Some U2) ''64b0f0a1c2d3e4f5a6b7c8a2''
                         ''Ops'' None)) ''64b0f0a1c2d3e4f5a6b7c8a2'' = Some t
               \<and> owner t = U2
               \<and> map (\<lambda>m. (ITeamMember.userId m, ITeamMember.role m)) (members t)
                   = [(U2, OWNER)])"
    by (rule k [THEN conjunct2, THEN conjunct1, THEN spec])
  from this [THEN mp, OF q] obtain t where t:
    "teams (snd (createTeam installation (Some U2) ''64b0f0a1c2d3e4f5a6b7c8a2''
                         ''Ops'' None)) ''64b0f0a1c2d3e4f5a6b7c8a2'' = Some t"
    "owner t = U2"
    "map (\<lambda>m. (ITeamMember.userId m, ITeamMember.role m)) (members t) = [(U2, OWNER)]"
    by (elim exE conjE)
  have "\<forall>t \<in> ran (teams (snd (createTeam installation (Some U2)
       ''64b0f0a1c2d3e4f5a6b7c8a2'' ''Ops'' None))). isMember t (owner t)"
    by (rule k [THEN conjunct2, THEN conjunct2, THEN conjunct1])
  moreover from t(1) have "t \<in> ran (teams (snd (createTeam installation (Some U2)
       ''64b0f0a1c2d3e4f5a6b7c8a2'' ''Ops'' None)))"
    by (rule ranI)
  ultimately have t4: "isMember t (owner t)" by (rule bspec)
  let ?t1 = "team1\<lparr>members :=
        [\<lparr>ITeamMember.userId = U1, ITeamMember.role = OWNER, ITeamMember.joinedAt = 10\<rparr>]\<rparr>"
  have lv: "teams (snd (leaveTeam installation (Some U2) T1)) T1 = Some ?t1"
    by (simp add: leaveTeam_def q installation_lookups team1_simps splice1_def teams_Team_save)
  have "\<forall>t \<in> ran (teams (snd (leaveTeam installation (Some U2) T1))). isMember t (owner t)"
    by (rule k [THEN conjunct2, THEN conjunct2, THEN conjunct2, THEN conjunct2, THEN conjunct2,
        THEN conjunct2, THEN conjunct2, THEN conjunct2, THEN conjunct1])
  moreover from lv have "?t1 \<in> ran (teams (snd (leaveTeam installation (Some U2) T1)))"
    by (rule ranI)
  ultimately have lv2: "isMember ?t1 (owner ?t1)" by (rule bspec)
  have lv3: "map ITeamMember.userId (members ?t1) = [U1]" by simp
  from t t4 have c: "\<exists>t. teams (snd (createTeam installation (Some U2) ''64b0f0a1c2d3e4f5a6b7c8a2''
                         ''Ops'' None)) ''64b0f0a1c2d3e4f5a6b7c8a2'' = Some t
          \<and> owner t = U2
          \<and> map (\<lambda>m. (ITeamMember.userId m, ITeamMember.role m)) (members t) = [(U2, OWNER)]
          \<and> isMember t (owner t)"
    by (intro exI [of _ t] conjI)
  from lv lv2 lv3 have d: "\<exists>t. teams (snd (leaveTeam installation (Some U2) T1)) T1 = Some t
          \<and> map ITeamMember.userId (members t) = [U1]
          \<and> isMember t (owner t)"
    by (intro exI [of _ ?t1] conjI)
  show ?thesis
    by (intro conjI r l h2 a c d)
qed

text \<open>
  The other half of the picture: on a team value whose owner has no entry in \<open>members\<close>
  (a value that no handler writes), \<open>isMember\<close> answers false for the owner, while
  \<open>isAdminOrOwner\<close> and \<open>getMemberRole\<close> test the \<open>owner\<close> field first and recognise the same
  user as the owner.
\<close>

theorem isMember_owner_not_listed:
  "isMember \<lparr>ITeam.name = ''Core'', ITeam.description = None, owner = U1,
             members = [\<lparr>ITeamMember.userId = U2, ITeamMember.role = MEMBER,
                         ITeamMember.joinedAt = 20\<rparr>]\<rparr> U1 = False
   \<and> isAdminOrOwner \<lparr>ITeam.name = ''Core'', ITeam.description = None, owner = U1,
             members = [\<lparr>ITeamMember.userId = U2, ITeamMember.role = MEMBER,
                         ITeamMember.joinedAt = 20\<rparr>]\<rparr> U1 = True
   \<and> getMemberRole \<lparr>ITeam.name = ''Core'', ITeam.description = None, owner = U1,
             members = [\<lparr>ITeamMember.userId = U2, ITeamMember.role = MEMBER,
                         ITeamMember.joinedAt = 20\<rparr>]\<rparr> U1 = Some OWNER"
  by (simp add: isMember_def isAdminOrOwner_def getMemberRole_def)

section \<open>Team membership operations\<close>

text \<open>
  C3. When an authorised requester (an admin or the owner of the team) asks \<open>removeMember\<close>
  to remove the team's owner, the answer is the 400 ``Bad Request'' error ``Cannot remove
  team owner'' and the store is returned as it was: the team, and with it its member list,
  is unchanged.
\<close>

theorem removeMember_owner_refused:
  assumes "requester user = Some uid" and "Team_findById w tid = Found k team"
    and "isAdminOrOwner team uid" and "mid = owner team"
  shows "removeMember w user tid mid =
           (ResponseHandler_error ''Cannot remove team owner'' ''Bad Request'' 400, w)
         \<and> teams (snd (removeMember w user tid mid)) k = Some team"
proof -
  from assms(2) have "teams w k = Some team" by (simp add: Team_findById_def findById_Found)
  with assms show ?thesis by (simp add: removeMember_def)
qed

theorem removeMember_owner_refused_witness:
  "requester (Some U1) = Some U1 \<and> Team_findById installation T1 = Found T1 team1
   \<and> Team_findById installation ''64B0F0A1C2D3E4F5A6B7C8A1'' = Found T1 team1
   \<and> isAdminOrOwner team1 U1 \<and> U1 = owner team1
   \<and> removeMember installation (Some U1) T1 U1 =
           (ResponseHandler_error ''Cannot remove team owner'' ''Bad Request'' 400, installation)
   \<and> removeMember installation (Some U1) ''64B0F0A1C2D3E4F5A6B7C8A1'' U1 =
           (ResponseHandler_error ''Cannot remove team owner'' ''Bad Request'' 400, installation)
   \<and> teams (snd (removeMember installation (Some U1) T1 U1)) T1 = Some team1"
proof -
  have g2: "Team_findById installation ''64B0F0A1C2D3E4F5A6B7C8A1'' = Found T1 team1"
    by (simp add: Team_findById_def findById_def castObjectId_def isHexDigit_def toLowerHex_def
        installation_simps)
  have h1: "requester (Some U1) = Some U1" by (simp add: requester_def)
  have h2: "Team_findById installation T1 = Found T1 team1" by (rule installation_lookups)
  have h3: "isAdminOrOwner team1 U1" by (simp add: isAdminOrOwner_def team1_simps)
  have h4: "U1 = owner team1" by (simp add: team1_simps)
  show ?thesis
    by (intro conjI h1 h2 g2 h3 h4 removeMember_owner_refused [OF h1 h2 h3 h4, THEN conjunct1]
        removeMember_owner_refused [OF h1 g2 h3 h4, THEN conjunct1]
        removeMember_owner_refused [OF h1 h2 h3 h4, THEN conjunct2])
qed

lemma store_emit:
  "users (emitMemberRemoved p w) = users w"
  "projects (emitMemberRemoved p w) = projects w"
  "tasks (emitMemberRemoved p w) = tasks w"
  "activities (emitMemberRemoved p w) = activities w"
  by (simp_all add: emitMemberRemoved_def io_to_emit_def Let_def)

lemma removeMember_success:
  assumes "requester user = Some uid" and "Team_findById w tid = Found k team"
    and "isAdminOrOwner team uid" and "mid \<noteq> owner team"
    and "findIndex (\<lambda>m. ITeamMember.userId m = mid) (members team) = Some i"
    and "castObjectId uid \<noteq> None" and "castObjectId mid \<noteq> None"
  shows "fst (removeMember w user tid mid) =
           ResponseHandler_success ''Member removed from team successfully'' 200"
    and "teams (snd (removeMember w user tid mid)) =
           (teams w)(k \<mapsto> team\<lparr>members := take i (members team) @ drop (Suc i) (members team)\<rparr>)"
    and "users (snd (removeMember w user tid mid)) = users w"
    and "projects (snd (removeMember w user tid mid)) = projects w"
    and "tasks (snd (removeMember w user tid mid)) = tasks w"
    and "activities (snd (removeMember w user tid mid)) = activities w"
proof -
  from assms(6,7) have c: "User_findById w uid \<noteq> CastError" "User_findById w mid \<noteq> CastError"
    by (simp_all add: User_findById_def findById_CastError)
  from assms(4) have o: "owner team \<noteq> mid" by auto
  let ?w1 = "Team_save k (team\<lparr>members := splice1 i (members team)\<rparr>) w"
  have "\<exists>w2. removeMember w user tid mid =
          (ResponseHandler_success ''Member removed from team successfully'' 200, w2)
        \<and> (w2 = ?w1 \<or> (\<exists>p. w2 = emitMemberRemoved p ?w1))"
    using assms(1,2,3,5) c o
    by (auto simp: removeMember_def Let_def split: lookup.splits)
  then obtain w2 where w2: "removeMember w user tid mid =
          (ResponseHandler_success ''Member removed from team successfully'' 200, w2)"
      "w2 = ?w1 \<or> (\<exists>p. w2 = emitMemberRemoved p ?w1)"
    by blast
  from w2(1) show "fst (removeMember w user tid mid) =
           ResponseHandler_success ''Member removed from team successfully'' 200"
    by simp
  from w2 show "teams (snd (removeMember w user tid mid)) =
           (teams w)(k \<mapsto> team\<lparr>members := take i (members team) @ drop (Suc i) (members team)\<rparr>)"
    by (auto simp: teams_emit teams_Team_save splice1_def)
  from w2 show "users (snd (removeMember w user tid mid)) = users w"
    by (auto simp: store_emit Team_save_def)
  from w2 show "projects (snd (removeMember w user tid mid)) = projects w"
    by (auto simp: store_emit Team_save_def)
  from w2 show "tasks (snd (removeMember w user tid mid)) = tasks w"
    by (auto simp: store_emit Team_save_def)
  from w2 show "activities (snd (removeMember w user tid mid)) = activities w"
    by (auto simp: store_emit Team_save_def)
qed

text \<open>
  C10. When the requester is authorised and \<open>memberId\<close> is in the member list and is not the
  owner, \<open>removeMember\<close> succeeds and removes exactly the first entry whose \<open>userId\<close> is
  \<open>memberId\<close>: the list \<open>before @ m # after\<close> becomes \<open>before @ after\<close>, with every other
  entry (role and \<open>joinedAt\<close> included) as it was and in the same order. The team's owner,
  name and description, every other team, and the users, projects and tasks are unchanged.
  (The ids of the requester and of the member are ObjectId strings, as the id of a token and
  the id of a member entry are: the handler looks both users up by id before it removes the
  entry.)
\<close>

theorem removeMember_frame:
  assumes "requester user = Some uid" and "Team_findById w tid = Found k team"
    and "isAdminOrOwner team uid" and "mid \<noteq> owner team"
    and "mid \<in> ITeamMember.userId ` set (members team)"
    and "castObjectId uid \<noteq> None" and "castObjectId mid \<noteq> None"
  shows "\<exists>before m after team'.
           members team = before @ m # after
         \<and> ITeamMember.userId m = mid
         \<and> (\<forall>x \<in> set before. ITeamMember.userId x \<noteq> mid)
         \<and> fst (removeMember w user tid mid) =
             ResponseHandler_success ''Member removed from team successfully'' 200
         \<and> teams (snd (removeMember w user tid mid)) k = Some team'
         \<and> members team' = before @ after
         \<and> owner team' = owner team
         \<and> ITeam.name team' = ITeam.name team
         \<and> ITeam.description team' = ITeam.description team
         \<and> (\<forall>other. other \<noteq> k \<longrightarrow>
               teams (snd (removeMember w user tid mid)) other = teams w other)
         \<and> users (snd (removeMember w user tid mid)) = users w
         \<and> projects (snd (removeMember w user tid mid)) = projects w
         \<and> tasks (snd (removeMember w user tid mid)) = tasks w"
proof -
  let ?P = "\<lambda>m. ITeamMember.userId m = mid"
  let ?ms = "members team"
  from assms(5) obtain i where i: "findIndex ?P ?ms = Some i"
    using findIndex_exists by fastforce
  note s = removeMember_success [OF assms(1-4) i assms(6,7)]
  let ?team' = "team\<lparr>members := take i ?ms @ drop (Suc i) ?ms\<rparr>"
  have split: "?ms = take i ?ms @ (?ms ! i) # drop (Suc i) ?ms"
    by (rule findIndex_split [OF i])
  have first: "?P (?ms ! i)" "\<forall>x \<in> set (take i ?ms). \<not> ?P x"
    using findIndex_Some [OF i] by simp_all
  have "teams (snd (removeMember w user tid mid)) k = Some ?team'"
    and "\<forall>other. other \<noteq> k \<longrightarrow>
               teams (snd (removeMember w user tid mid)) other = teams w other"
    by (simp_all add: s(2))
  with split first s(1,3,4,5) show ?thesis
    by (intro exI [of _ "take i ?ms"] exI [of _ "?ms ! i"] exI [of _ "drop (Suc i) ?ms"]
        exI [of _ ?team']) simp
qed

theorem removeMember_frame_witness:
  "requester (Some U1) = Some U1 \<and> Team_findById installation T1 = Found T1 team1
   \<and> isAdminOrOwner team1 U1 \<and> U2 \<noteq> owner team1
   \<and> U2 \<in> ITeamMember.userId ` set (members team1)
   \<and> castObjectId U1 \<noteq> None \<and> castObjectId U2 \<noteq> None
   \<and> (\<exists>before m after team'.
           members team1 = before @ m # after
         \<and> ITeamMember.userId m = U2
         \<and> (\<forall>x \<in> set before. ITeamMember.userId x \<noteq> U2)
         \<and> fst (removeMember installation (Some U1) T1 U2) =
             ResponseHandler_success ''Member removed from team successfully'' 200
         \<and> teams (snd (removeMember installation (Some U1) T1 U2)) T1 = Some team'
         \<and> members team' = before @ after
         \<and> owner team' = owner team1
         \<and> ITeam.name team' = ITeam.name team1
         \<and> ITeam.description team' = ITeam.description team1
         \<and> (\<forall>other. other \<noteq> T1 \<longrightarrow>
               teams (snd (removeMember installation (Some U1) T1 U2)) other
                 = teams installation other)
         \<and> users (snd (removeMember installation (Some U1) T1 U2)) = users installation
         \<and> projects (snd (removeMember installation (Some U1) T1 U2)) = projects installation
         \<and> tasks (snd (removeMember installation (Some U1) T1 U2)) = tasks installation)"
proof -
  have h1: "requester (Some U1) = Some U1" by (simp add: requester_def)
  have h2: "Team_findById installation T1 = Found T1 team1" by (rule installation_lookups)
  have h3: "isAdminOrOwner team1 U1" by (simp add: isAdminOrOwner_def team1_simps)
  have h4: "U2 \<noteq> owner team1" by (simp add: team1_simps)
  have h5: "U2 \<in> ITeamMember.userId ` set (members team1)" by (simp add: team1_simps)
  have h6: "castObjectId U1 \<noteq> None" by (simp add: castObjectId_ids)
  have h7: "castObjectId U2 \<noteq> None" by (simp add: castObjectId_ids)
  show ?thesis
    by (intro conjI h1 h2 h3 h4 h5 h6 h7 removeMember_frame [OF h1 h2 h3 h4 h5 h6 h7])
qed

lemma removeMember_installation:
  "map_option members (teams (snd (removeMember installation (Some U1) T1 U2)) T1) =
       Some [\<lparr>ITeamMember.userId = U1, ITeamMember.role = OWNER, ITeamMember.joinedAt = 10\<rparr>]"
  by (simp add: removeMember_def requester_def installation_lookups isAdminOrOwner_def
      team1_simps teams_Team_save teams_emit splice1_def installation_users Let_def)

text \<open>
  C9. The role validation of both request bodies admits \<open>'owner'\<close>. In the installation, the
  owner inviting the outsider with role \<open>owner\<close>, or setting the plain member's role to
  \<open>owner\<close>, succeeds; the saved team keeps its \<open>owner\<close> field and has a second member entry
  with role \<open>owner\<close>, for whom \<open>isAdminOrOwner\<close> answers true.
\<close>

theorem second_owner_admitted:
  "InviteMemberDto_role (Defined ''owner'') = Inr OWNER
   \<and> UpdateMemberRoleDto_role (Defined ''owner'') = Inr OWNER
   \<and> owner team1 = U1 \<and> U3 \<noteq> owner team1 \<and> U2 \<noteq> owner team1
   \<and> fst (inviteMember installation (Some U1) T1 ''chen@example.com'' (Defined OWNER)) =
       ResponseHandler_success ''Member added to team successfully'' 201
   \<and> map_option members
         (teams (snd (inviteMember installation (Some U1) T1 ''chen@example.com'' (Defined OWNER))) T1) =
       Some [\<lparr>ITeamMember.userId = U1, ITeamMember.role = OWNER, ITeamMember.joinedAt = 10\<rparr>,
             \<lparr>ITeamMember.userId = U2, ITeamMember.role = MEMBER, ITeamMember.joinedAt = 20\<rparr>,
             \<lparr>ITeamMember.userId = U3, ITeamMember.role = OWNER, ITeamMember.joinedAt = 1000\<rparr>]
   \<and> map_option (\<lambda>t. (owner t, isAdminOrOwner t U3))
         (teams (snd (inviteMember installation (Some U1) T1 ''chen@example.com'' (Defined OWNER))) T1) =
       Some (U1, True)
   \<and> fst (updateMemberRole installation (Some U1) T1 U2 OWNER) =
       ResponseHandler_success ''Member role updated successfully'' 200
   \<and> map_option members (teams (snd (updateMemberRole installation (Some U1) T1 U2 OWNER)) T1) =
       Some [\<lparr>ITeamMember.userId = U1, ITeamMember.role = OWNER, ITeamMember.joinedAt = 10\<rparr>,
             \<lparr>ITeamMember.userId = U2, ITeamMember.role = OWNER, ITeamMember.joinedAt = 20\<rparr>]
   \<and> map_option (\<lambda>t. (owner t, isAdminOrOwner t U2))
         (teams (snd (updateMemberRole installation (Some U1) T1 U2 OWNER)) T1) =
       Some (U1, True)"
proof -
  have dto: "InviteMemberDto_role (Defined ''owner'') = Inr OWNER"
            "UpdateMemberRoleDto_role (Defined ''owner'') = Inr OWNER"
    by (simp_all add: InviteMemberDto_role_def UpdateMemberRoleDto_role_def TeamMemberRole_values_def)
  have inv: "inviteMember installation (Some U1) T1 ''chen@example.com'' (Defined OWNER) =
      (ResponseHandler_success ''Member added to team successfully'' 201,
       emitMemberJoined
         \<lparr>MemberJoinedPayload.teamId = T1, MemberJoinedPayload.teamName = ''Core'',
          MemberJoinedPayload.member =
            \<lparr>JoinedMember.id = U3, JoinedMember.name = ''Chen'',
             JoinedMember.email = ''chen@example.com'',
             JoinedMember.role = OWNER, JoinedMember.joinedAt = 1000\<rparr>,
          addedBy = \<lparr>UserRef.id = U1, UserRef.name = ''Asha'', UserRef.email = ''asha@example.com''\<rparr>\<rparr>
         (Team_save T1 (team1\<lparr>members := members team1 @
             [\<lparr>ITeamMember.userId = U3, ITeamMember.role = OWNER, ITeamMember.joinedAt = 1000\<rparr>]\<rparr>)
            installation))"
    by (simp add: inviteMember_def requester_def installation_lookups installation_simps
        isAdminOrOwner_def isMember_def team1_simps User_findOne_email_def installation_users)
  have upd: "updateMemberRole installation (Some U1) T1 U2 OWNER =
      (ResponseHandler_success ''Member role updated successfully'' 200,
       emitMemberRoleUpdated
         \<lparr>MemberRoleUpdatedPayload.teamId = T1, MemberRoleUpdatedPayload.teamName = ''Core'',
          MemberRoleUpdatedPayload.member =
            \<lparr>UserRef.id = U2, UserRef.name = ''Bram'', UserRef.email = ''bram@example.com''\<rparr>,
          oldRole = MEMBER, newRole = OWNER,
          MemberRoleUpdatedPayload.updatedBy =
            \<lparr>UserRef.id = U1, UserRef.name = ''Asha'', UserRef.email = ''asha@example.com''\<rparr>\<rparr>
         (Team_save T1 (team1\<lparr>members :=
             [\<lparr>ITeamMember.userId = U1, ITeamMember.role = OWNER, ITeamMember.joinedAt = 10\<rparr>,
              \<lparr>ITeamMember.userId = U2, ITeamMember.role = OWNER, ITeamMember.joinedAt = 20\<rparr>]\<rparr>)
            installation))"
    by (simp add: updateMemberRole_def requester_def installation_lookups installation_simps
        team1_simps installation_users Let_def)
  show ?thesis
    by (simp add: dto inv upd teams_emit Team_save_def team1_simps isAdminOrOwner_def)
qed

section \<open>Realtime fan-out\<close>

text \<open>
  C8. With the Socket.IO server initialised, a member-removed event is emitted twice: to
  the room \<open>team:{teamId}\<close> with the payload as it is (no \<open>isPersonal\<close> key), and to the
  personal room \<open>user:{memberId}\<close> of the removed member with \<open>isPersonal: true\<close>. The same
  holds for member-joined (to the new member), member-role-updated (to the affected member)
  and task-assigned (to the assignee, whose id is a non-empty string).
\<close>

theorem personal_fanout:
  assumes "io w"
  shows "emitMemberRemoved pr w =
           w\<lparr>emitted := emitted w @
             [\<lparr>room = ''team:'' @ MemberRemovedPayload.teamId pr, event = SocketEvents.MEMBER_REMOVED,
               payload = MemberRemoved pr, isPersonal = None, Emission.message = None\<rparr>,
              \<lparr>room = ''user:'' @ memberId pr, event = SocketEvents.MEMBER_REMOVED,
               payload = MemberRemoved pr, isPersonal = Some True,
               Emission.message =
                 Some (''You have been removed from '' @ MemberRemovedPayload.teamName pr)\<rparr>]\<rparr>
       \<and> emitMemberJoined pj w =
           w\<lparr>emitted := emitted w @
             [\<lparr>room = ''team:'' @ MemberJoinedPayload.teamId pj, event = MEMBER_JOINED,
               payload = MemberJoined pj, isPersonal = None, Emission.message = None\<rparr>,
              \<lparr>room = ''user:'' @ JoinedMember.id (MemberJoinedPayload.member pj),
               event = MEMBER_JOINED,
               payload = MemberJoined pj, isPersonal = Some True,
               Emission.message =
                 Some (''You have been added to '' @ MemberJoinedPayload.teamName pj)\<rparr>]\<rparr>
       \<and> emitMemberRoleUpdated pu w =
           w\<lparr>emitted := emitted w @
             [\<lparr>room = ''team:'' @ MemberRoleUpdatedPayload.teamId pu, event = MEMBER_ROLE_UPDATED,
               payload = MemberRoleUpdated pu, isPersonal = None, Emission.message = None\<rparr>,
              \<lparr>room = ''user:'' @ UserRef.id (MemberRoleUpdatedPayload.member pu),
               event = MEMBER_ROLE_UPDATED,
               payload = MemberRoleUpdated pu, isPersonal = Some True,
               Emission.message =
                 Some (''Your role in '' @ MemberRoleUpdatedPayload.teamName pu
                       @ '' has been changed from '' @ TeamMemberRole_value (oldRole pu)
                       @ '' to '' @ TeamMemberRole_value (newRole pu))\<rparr>]\<rparr>
       \<and> (UserRef.id (TaskAssignedPayload.assignee pa) \<noteq> [] \<longrightarrow>
           emitTaskAssigned pa w =
           w\<lparr>emitted := emitted w @
             [\<lparr>room = ''team:'' @ TaskAssignedPayload.teamId pa, event = TASK_ASSIGNED,
               payload = TaskAssigned pa, isPersonal = None, Emission.message = None\<rparr>,
              \<lparr>room = ''user:'' @ UserRef.id (TaskAssignedPayload.assignee pa),
               event = TASK_ASSIGNED,
               payload = TaskAssigned pa, isPersonal = Some True, Emission.message = None\<rparr>]\<rparr>)"
  using assms
  by (simp add: emitMemberRemoved_def emitMemberJoined_def emitMemberRoleUpdated_def
      emitTaskAssigned_def io_to_emit_def)


theorem personal_fanout_witness:
  "io installation \<and> UserRef.id (TaskAssignedPayload.assignee assignment1) \<noteq> []
   \<and> map (\<lambda>e. (room e, isPersonal e)) (emitted (emitMemberRemoved removal1 installation)) =
       [(''team:'' @ T1, None), (''user:'' @ U2, Some True)]
   \<and> map (\<lambda>e. (room e, isPersonal e)) (emitted (emitMemberJoined joining1 installation)) =
       [(''team:'' @ T1, None), (''user:'' @ U2, Some True)]
   \<and> map (\<lambda>e. (room e, isPersonal e)) (emitted (emitMemberRoleUpdated promotion1 installation)) =
       [(''team:'' @ T1, None), (''user:'' @ U2, Some True)]
   \<and> map (\<lambda>e. (room e, isPersonal e)) (emitted (emitTaskAssigned assignment1 installation)) =
       [(''team:'' @ T1, None), (''user:'' @ U2, Some True)]"
proof -
  have h1: "io installation" by (simp add: installation_simps)
  have h2: "UserRef.id (TaskAssignedPayload.assignee assignment1) \<noteq> []"
    by (simp add: assignment1_def bram_def)
  show ?thesis
    using personal_fanout [OF h1, of removal1 joining1 promotion1 assignment1] h1 h2
    by (simp add: installation_simps removal1_def joining1_def promotion1_def assignment1_def
        bram_def)
qed

section \<open>The transition check in the task controller\<close>

lemma canTransitionTo_frame:
  "canTransitionTo (t\<lparr>ITask.title := a\<rparr>) x = canTransitionTo t x"
  "canTransitionTo (t\<lparr>ITask.description := b\<rparr>) x = canTransitionTo t x"
  "canTransitionTo (t\<lparr>ITask.priority := c\<rparr>) x = canTransitionTo t x"
  by (simp_all add: canTransitionTo_def)

lemma transitionError_frame:
  "transitionError (t\<lparr>ITask.title := a\<rparr>) x = transitionError t x"
  "transitionError (t\<lparr>ITask.description := b\<rparr>) x = transitionError t x"
  "transitionError (t\<lparr>ITask.priority := c\<rparr>) x = transitionError t x"
  by (simp_all add: transitionError_def)

lemma applyUpdate_refused:
  assumes "UpdateTaskDto.status d = Defined (Some x)" and "\<not> canTransitionTo t0 x"
  shows "applyUpdate t0 d = Inl (transitionError t0 (Some x))"
  using assms
  by (simp add: applyUpdate_def Let_def canTransitionTo_frame transitionError_frame
      split: optional.splits option.splits)


lemma refusals:
  "\<not> success (ResponseHandler_unauthorized m)"
  "\<not> success (ResponseHandler_notFound m)"
  "\<not> success (ResponseHandler_forbidden m)"
  "\<not> success (ResponseHandler_serverError m)"
  "\<not> success (ResponseHandler_error m e n)"
  by (simp_all add: ResponseHandler_unauthorized_def ResponseHandler_notFound_def
      ResponseHandler_forbidden_def ResponseHandler_serverError_def ResponseHandler_error_def)

lemma verifyAssignee_refusal: "verifyAssignee w team a = Some r \<Longrightarrow> \<not> success r"
  by (auto simp: verifyAssignee_def refusals split: option.splits if_splits lookup.splits)

lemma verifyAssignee_cast:
  assumes "castObjectId aid = Some ak"
  shows "verifyAssignee w team (Some aid) =
           (if map_of (users w) ak = None
            then Some (ResponseHandler_notFound TASK_ASSIGNEE_NOT_FOUND)
            else if \<not> isMember team aid
            then Some (ResponseHandler_error ''Assignee must be a member of the team''
                         ''Invalid Assignee'' 400)
            else None)"
proof -
  from castObjectId_length [OF assms] have "aid \<noteq> []" by auto
  then show ?thesis
    using assms
    by (auto simp: verifyAssignee_def User_findById_def findById_cast split: option.splits)
qed

lemma updateTask_checks:
  assumes "requester user = Some uid" and "Task_findById w kid = Found k t0"
    and "populateProject w (ITask.projectId t0) = Some (pk, proj)"
    and "teams w (IProject.teamId proj) = Some team"
    and "isMember team uid"
  shows "updateTask w user kid d =
     (case verifyAssignee w team
              (case UpdateTaskDto.assignee d of Undefined \<Rightarrow> None | Defined a \<Rightarrow> a) of
        Some refusal \<Rightarrow> (refusal, w)
      | None \<Rightarrow>
      (case applyUpdate t0 d of
        Inl refusal \<Rightarrow> (refusal, w)
      | Inr (t, c) \<Rightarrow>
          if \<not> savable d
          then (ResponseHandler_serverError GENERAL_INTERNAL_SERVER_ERROR, w)
          else
            let tid = IProject.teamId proj;
                w1 = Task_save k t w;
                w2 = logUpdate uid tid k t0 t c d w1;
                updater = User_findById w2 uid
            in if updater = CastError
               then (ResponseHandler_serverError GENERAL_INTERNAL_SERVER_ERROR, w2)
               else
                 (case populateUser w2 (ITask.createdBy t) of
                    None \<Rightarrow> (ResponseHandler_serverError GENERAL_INTERNAL_SERVER_ERROR, w2)
                  | Some creator \<Rightarrow>
                      (case emitUpdate uid (case updater of Found _ u \<Rightarrow> Some u | _ \<Rightarrow> None)
                              tid k pk t0 t c d
                              (taskResponse w2 k t (pk, proj) creator) w2 of
                         (w3, ok) \<Rightarrow>
                           if ok then (ResponseHandler_success ''Task updated successfully'' 200, w3)
                           else (ResponseHandler_serverError GENERAL_INTERNAL_SERVER_ERROR,
                                 w3)))))"
  using assms by (simp add: updateTask_def)

text \<open>
  C4 (as amended). Let an authenticated member of the task's team ask for a status that is
  not reachable from the task's current status. The dedicated status update answers the 400
  ``Invalid Status Transition'' error whose message is ``Cannot transition from <current> to
  <requested>''. The general update answers the same error provided the assignee in the same
  request, if any, passes the assignee check, which that handler evaluates first; where the
  assignee (24 hexadecimal digits, as the request validation requires) does not pass it, the
  general update answers the assignee check's error: 404 ``Assignee not found'' when no user
  has that id, 400 ``Invalid Assignee'' otherwise. In every one of these cases the store is
  returned as it was: nothing of the request, other fields included, is persisted.
\<close>

theorem invalid_transition_refused:
  assumes "requester user = Some uid" and "Task_findById w kid = Found k t0"
    and "populateProject w (ITask.projectId t0) = Some (pk, proj)"
    and "teams w (IProject.teamId proj) = Some team"
    and "isMember team uid"
    and "\<not> canTransitionTo t0 st"
  shows "updateTaskStatus w user kid st = (transitionError t0 (Some st), w)
       \<and> (UpdateTaskDto.status d = Defined (Some st)
            \<and> verifyAssignee w team
                 (case UpdateTaskDto.assignee d of Undefined \<Rightarrow> None | Defined a \<Rightarrow> a) = None
          \<longrightarrow> updateTask w user kid d = (transitionError t0 (Some st), w))
       \<and> (UpdateTaskDto.status d = Defined (Some st)
            \<and> UpdateTaskDto.assignee d = Defined (Some aid) \<and> castObjectId aid = Some ak
            \<and> verifyAssignee w team (Some aid) \<noteq> None
          \<longrightarrow> updateTask w user kid d =
                (if map_of (users w) ak = None
                 then ResponseHandler_notFound TASK_ASSIGNEE_NOT_FOUND
                 else ResponseHandler_error ''Assignee must be a member of the team''
                        ''Invalid Assignee'' 400, w))
       \<and> (UpdateTaskDto.status d = Defined (Some st)
          \<longrightarrow> snd (updateTask w user kid d) = w \<and> \<not> success (fst (updateTask w user kid d)))
       \<and> transitionError t0 (Some st) =
           \<lparr>statusCode = 400, success = False,
            message = ''Cannot transition from '' @ TaskStatus_value (ITask.status t0)
                      @ '' to '' @ TaskStatus_value st,
            error = Some ''Invalid Status Transition''\<rparr>"
proof -
  note u = updateTask_checks [OF assms(1-5)]
  have a: "updateTaskStatus w user kid st = (transitionError t0 (Some st), w)"
    using assms by (simp add: updateTaskStatus_def)
  have b: "updateTask w user kid d = (transitionError t0 (Some st), w)"
    if "UpdateTaskDto.status d = Defined (Some st)"
      and "verifyAssignee w team
             (case UpdateTaskDto.assignee d of Undefined \<Rightarrow> None | Defined a \<Rightarrow> a) = None"
    using that(2) applyUpdate_refused [OF that(1) assms(6)]
    by (simp add: u)
  have b2: "updateTask w user kid d =
                (if map_of (users w) ak = None
                 then ResponseHandler_notFound TASK_ASSIGNEE_NOT_FOUND
                 else ResponseHandler_error ''Assignee must be a member of the team''
                        ''Invalid Assignee'' 400, w)"
    if "UpdateTaskDto.assignee d = Defined (Some aid)" and "castObjectId aid = Some ak"
      and "verifyAssignee w team (Some aid) \<noteq> None"
    using that(1,3) verifyAssignee_cast [OF that(2), of w team]
    by (simp add: u split: if_splits)
  have c: "snd (updateTask w user kid d) = w \<and> \<not> success (fst (updateTask w user kid d))"
    if "UpdateTaskDto.status d = Defined (Some st)"
  proof (cases "verifyAssignee w team
             (case UpdateTaskDto.assignee d of Undefined \<Rightarrow> None | Defined a \<Rightarrow> a)")
    case None
    from b [OF that None] show ?thesis
      by (simp add: transitionError_def ResponseHandler_error_def)
  next
    case (Some r)
    with verifyAssignee_refusal [OF Some] show ?thesis by (simp add: u)
  qed
  have e: "transitionError t0 (Some st) =
           \<lparr>statusCode = 400, success = False,
            message = ''Cannot transition from '' @ TaskStatus_value (ITask.status t0)
                      @ '' to '' @ TaskStatus_value st,
            error = Some ''Invalid Status Transition''\<rparr>"
    by (simp add: transitionError_def ResponseHandler_error_def TaskStatus_text_def)
  from a b b2 c e show ?thesis by blast
qed

theorem invalid_transition_refused_witness:
  "requester (Some U1) = Some U1 \<and> Task_findById installation K1 = Found K1 task1
   \<and> isMember team1 U1 \<and> \<not> canTransitionTo task1 REVIEW
   \<and> UpdateTaskDto.status update_review = Defined (Some REVIEW)
   \<and> UpdateTaskDto.status update_review_outsider = Defined (Some REVIEW)
   \<and> UpdateTaskDto.assignee update_review_outsider = Defined (Some U3)
   \<and> updateTaskStatus installation (Some U1) K1 REVIEW =
       (transitionError task1 (Some REVIEW), installation)
   \<and> updateTask installation (Some U1) K1 update_review =
       (transitionError task1 (Some REVIEW), installation)
   \<and> updateTask installation (Some U1) K1 update_review_outsider =
       (ResponseHandler_error ''Assignee must be a member of the team'' ''Invalid Assignee'' 400,
        installation)
   \<and> message (transitionError task1 (Some REVIEW)) = ''Cannot transition from todo to review''"
proof -
  let ?proj = "\<lparr>IProject.name = ''Reports'', IProject.description = None,
                 IProject.teamId = T1, IProject.createdBy = U1\<rparr>"
  have h1: "requester (Some U1) = Some U1" by (simp add: requester_def)
  have h2: "Task_findById installation K1 = Found K1 task1" by (rule installation_lookups)
  have h3: "populateProject installation (ITask.projectId task1) = Some (P1, ?proj)"
    by (simp add: installation_lookups task1_simps)
  have h4: "teams installation (IProject.teamId ?proj) = Some team1"
    by (simp add: installation_simps)
  have h5: "isMember team1 U1" by (rule team1_isMember)
  have h6: "\<not> canTransitionTo task1 REVIEW"
    by (simp add: canTransitionTo_def map_of_transitions task1_simps)
  have h7: "UpdateTaskDto.status update_review = Defined (Some REVIEW)"
    by (simp add: update_review_def)
  have h8: "verifyAssignee installation team1
              (case UpdateTaskDto.assignee update_review of Undefined \<Rightarrow> None | Defined a \<Rightarrow> a)
            = None"
    by (simp add: update_review_def verifyAssignee_def)
  have g7: "UpdateTaskDto.status update_review_outsider = Defined (Some REVIEW)"
    by (simp add: update_review_outsider_def update_review_def)
  have g8: "UpdateTaskDto.assignee update_review_outsider = Defined (Some U3)"
    by (simp add: update_review_outsider_def)
  have g9: "castObjectId U3 = Some U3" by (rule castObjectId_ids)
  have g10: "verifyAssignee installation team1 (Some U3) \<noteq> None"
    by (simp add: verifyAssignee_cast [OF g9] team1_isMember)
  have g11: "map_of (users installation) U3 \<noteq> None" by (simp add: installation_simps)
  note k = invalid_transition_refused [OF h1 h2 h3 h4 h5 h6]
  have a: "updateTaskStatus installation (Some U1) K1 REVIEW =
       (transitionError task1 (Some REVIEW), installation)"
    by (rule k [THEN conjunct1])
  have b: "updateTask installation (Some U1) K1 update_review =
       (transitionError task1 (Some REVIEW), installation)"
    using k [where d = update_review, THEN conjunct2, THEN conjunct1] h7 h8 by simp
  have c: "updateTask installation (Some U1) K1 update_review_outsider =
       (ResponseHandler_error ''Assignee must be a member of the team'' ''Invalid Assignee'' 400,
        installation)"
    using k [where d = update_review_outsider and aid = U3 and ak = U3,
        THEN conjunct2, THEN conjunct2, THEN conjunct1] g7 g8 g9 g10 g11
    by simp
  have e: "message (transitionError task1 (Some REVIEW)) = ''Cannot transition from todo to review''"
    using k [THEN conjunct2, THEN conjunct2, THEN conjunct2, THEN conjunct2]
    by (simp add: task1_simps)
  show ?thesis
    by (intro conjI h1 h2 h5 h6 h7 g7 g8 a b c e)
qed

theorem invalid_transition_behind_assignee_check:
  "requester (Some U1) = Some U1 \<and> Task_findById installation K1 = Found K1 task1
   \<and> isMember team1 U1 \<and> \<not> canTransitionTo task1 REVIEW
   \<and> UpdateTaskDto.status update_review_outsider = Defined (Some REVIEW)
   \<and> updateTask installation (Some U1) K1 update_review_outsider =
       (ResponseHandler_error ''Assignee must be a member of the team'' ''Invalid Assignee'' 400,
        installation)
   \<and> fst (updateTask installation (Some U1) K1 update_review_outsider)
       \<noteq> transitionError task1 (Some REVIEW)"
proof -
  have h6: "\<not> canTransitionTo task1 REVIEW"
    by (simp add: canTransitionTo_def map_of_transitions task1_simps)
  have r: "updateTask installation (Some U1) K1 update_review_outsider =
       (ResponseHandler_error ''Assignee must be a member of the team'' ''Invalid Assignee'' 400,
        installation)"
    by (simp add: updateTask_def requester_def installation_lookups installation_simps
        task1_simps team1_isMember update_review_outsider_def update_review_def
        verifyAssignee_cast [OF castObjectId_ids(3)])
  show ?thesis
    using h6 r
    by (simp add: requester_def installation_lookups team1_isMember update_review_outsider_def
        update_review_def transitionError_def ResponseHandler_error_def)
qed

section \<open>The assignee check\<close>

text \<open>
  C7. Let an authenticated member of the team create a task in a project of the team, or
  update a task of the team, with an assignee (a string of 24 hexadecimal digits, as the
  request validation requires) that designates no existing user, or that is not the id of a
  member of the team. The handler answers 404 ``Assignee not found'' in the first case and
  400 ``Invalid Assignee'' (``Assignee must be a member of the team'') in the second, and
  returns the store as it was: no task is created or changed, and no activity is recorded.
\<close>

theorem invalid_assignee_refused:
  assumes "requester user = Some uid" and "teams w tid = Some team" and "isMember team uid"
    and "castObjectId aid = Some ak"
    and "map_of (users w) ak = None \<or> \<not> isMember team aid"
  shows "(Project_findById w (CreateTaskDto.projectId taskData) = Found pk proj
            \<and> IProject.teamId proj = tid
            \<and> CreateTaskDto.assignee taskData = Some aid
          \<longrightarrow> createTask w user new_id taskData =
                (if map_of (users w) ak = None
                 then ResponseHandler_notFound TASK_ASSIGNEE_NOT_FOUND
                 else ResponseHandler_error ''Assignee must be a member of the team''
                        ''Invalid Assignee'' 400, w))
       \<and> (Task_findById w kid = Found k t0
            \<and> populateProject w (ITask.projectId t0) = Some (pk', proj')
            \<and> IProject.teamId proj' = tid
            \<and> UpdateTaskDto.assignee updateData = Defined (Some aid)
          \<longrightarrow> updateTask w user kid updateData =
                (if map_of (users w) ak = None
                 then ResponseHandler_notFound TASK_ASSIGNEE_NOT_FOUND
                 else ResponseHandler_error ''Assignee must be a member of the team''
                        ''Invalid Assignee'' 400, w))
       \<and> ResponseHandler_notFound TASK_ASSIGNEE_NOT_FOUND =
           \<lparr>statusCode = 404, success = False, message = ''Assignee not found'',
            error = Some ''Not found''\<rparr>
       \<and> ResponseHandler_error ''Assignee must be a member of the team'' ''Invalid Assignee'' 400 =
           \<lparr>statusCode = 400, success = False,
            message = ''Assignee must be a member of the team'',
            error = Some ''Invalid Assignee''\<rparr>"
  using assms verifyAssignee_cast [OF assms(4), of w team]
  by (auto simp: createTask_def updateTask_def ResponseHandler_notFound_def
      ResponseHandler_error_def)

theorem invalid_assignee_refused_witness:
  "requester (Some U1) = Some U1 \<and> teams installation T1 = Some team1 \<and> isMember team1 U1
   \<and> castObjectId U3 = Some U3 \<and> \<not> isMember team1 U3
   \<and> castObjectId ''64B0F0A1C2D3E4F5A6B7C803'' = Some U3
   \<and> \<not> isMember team1 ''64B0F0A1C2D3E4F5A6B7C803''
   \<and> castObjectId ''64b0f0a1c2d3e4f5a6b7c8ff'' = Some ''64b0f0a1c2d3e4f5a6b7c8ff''
   \<and> map_of (users installation) ''64b0f0a1c2d3e4f5a6b7c8ff'' = None
   \<and> CreateTaskDto.assignee create_for_outsider = Some U3
   \<and> UpdateTaskDto.assignee update_review_outsider = Defined (Some U3)
   \<and> createTask installation (Some U1) ''64b0f0a1c2d3e4f5a6b7c8c2'' create_for_outsider =
       (ResponseHandler_error ''Assignee must be a member of the team'' ''Invalid Assignee'' 400,
        installation)
   \<and> updateTask installation (Some U1) K1 update_review_outsider =
       (ResponseHandler_error ''Assignee must be a member of the team'' ''Invalid Assignee'' 400,
        installation)
   \<and> updateTask installation (Some U1) K1
        (update_review\<lparr>UpdateTaskDto.assignee := Defined (Some ''64B0F0A1C2D3E4F5A6B7C803'')\<rparr>) =
       (ResponseHandler_error ''Assignee must be a member of the team'' ''Invalid Assignee'' 400,
        installation)
   \<and> updateTask installation (Some U1) K1
        (update_review\<lparr>UpdateTaskDto.assignee := Defined (Some ''64b0f0a1c2d3e4f5a6b7c8ff'')\<rparr>) =
       (ResponseHandler_notFound TASK_ASSIGNEE_NOT_FOUND, installation)
   \<and> tasks installation ''64b0f0a1c2d3e4f5a6b7c8c2'' = None
   \<and> tasks installation K1 = Some task1 \<and> ITask.assignee task1 = None
   \<and> activities installation = []"
proof -
  let ?proj = "\<lparr>IProject.name = ''Reports'', IProject.description = None,
                 IProject.teamId = T1, IProject.createdBy = U1\<rparr>"
  have h1: "requester (Some U1) = Some U1" by (simp add: requester_def)
  have h2: "teams installation T1 = Some team1" by (simp add: installation_simps)
  have h3: "isMember team1 U1" by (rule team1_isMember)
  have a4: "castObjectId U3 = Some U3" by (rule castObjectId_ids)
  have a5: "\<not> isMember team1 U3" by (rule team1_isMember)
  have b4: "castObjectId ''64B0F0A1C2D3E4F5A6B7C803'' = Some U3"
    by (simp add: castObjectId_def isHexDigit_def toLowerHex_def)
  have b5: "\<not> isMember team1 ''64B0F0A1C2D3E4F5A6B7C803''"
    by (simp add: isMember_def team1_simps)
  have c4: "castObjectId ''64b0f0a1c2d3e4f5a6b7c8ff'' = Some ''64b0f0a1c2d3e4f5a6b7c8ff''"
    by (simp add: castObjectId_def isHexDigit_def toLowerHex_def)
  have c5: "map_of (users installation) ''64b0f0a1c2d3e4f5a6b7c8ff'' = None"
    by (simp add: installation_simps)
  have u3: "map_of (users installation) U3 \<noteq> None"
    by (simp add: installation_simps)
  have p: "Project_findById installation (CreateTaskDto.projectId create_for_outsider) =
             Found P1 ?proj"
    by (simp add: create_for_outsider_def installation_lookups)
  have pt: "IProject.teamId ?proj = T1" by simp
  have ca: "CreateTaskDto.assignee create_for_outsider = Some U3"
    by (simp add: create_for_outsider_def)
  have t: "Task_findById installation K1 = Found K1 task1" by (rule installation_lookups)
  have pp: "populateProject installation (ITask.projectId task1) = Some (P1, ?proj)"
    by (simp add: installation_lookups task1_simps)
  have ua: "UpdateTaskDto.assignee update_review_outsider = Defined (Some U3)"
    by (simp add: update_review_outsider_def)
  have ub: "UpdateTaskDto.assignee
      (update_review\<lparr>UpdateTaskDto.assignee := Defined (Some ''64B0F0A1C2D3E4F5A6B7C803'')\<rparr>)
      = Defined (Some ''64B0F0A1C2D3E4F5A6B7C803'')"
    by simp
  have uc: "UpdateTaskDto.assignee
      (update_review\<lparr>UpdateTaskDto.assignee := Defined (Some ''64b0f0a1c2d3e4f5a6b7c8ff'')\<rparr>)
      = Defined (Some ''64b0f0a1c2d3e4f5a6b7c8ff'')"
    by simp
  note ka = invalid_assignee_refused [OF h1 h2 h3 a4 disjI2 [OF a5]]
  note kb = invalid_assignee_refused [OF h1 h2 h3 b4 disjI2 [OF b5]]
  note kc = invalid_assignee_refused [OF h1 h2 h3 c4 disjI1 [OF c5]]
  have r1: "createTask installation (Some U1) ''64b0f0a1c2d3e4f5a6b7c8c2'' create_for_outsider =
       (ResponseHandler_error ''Assignee must be a member of the team'' ''Invalid Assignee'' 400,
        installation)"
    using ka [THEN conjunct1, THEN mp, OF conjI [OF p conjI [OF pt ca]]] u3 by simp
  have r2: "updateTask installation (Some U1) K1 update_review_outsider =
       (ResponseHandler_error ''Assignee must be a member of the team'' ''Invalid Assignee'' 400,
        installation)"
    using ka [THEN conjunct2, THEN conjunct1, THEN mp,
        OF conjI [OF t conjI [OF pp conjI [OF pt ua]]]] u3 by simp
  have r3: "updateTask installation (Some U1) K1
        (update_review\<lparr>UpdateTaskDto.assignee := Defined (Some ''64B0F0A1C2D3E4F5A6B7C803'')\<rparr>) =
       (ResponseHandler_error ''Assignee must be a member of the team'' ''Invalid Assignee'' 400,
        installation)"
    using kb [THEN conjunct2, THEN conjunct1, THEN mp,
        OF conjI [OF t conjI [OF pp conjI [OF pt ub]]]] u3 by simp
  have r4: "updateTask installation (Some U1) K1
        (update_review\<lparr>UpdateTaskDto.assignee := Defined (Some ''64b0f0a1c2d3e4f5a6b7c8ff'')\<rparr>) =
       (ResponseHandler_notFound TASK_ASSIGNEE_NOT_FOUND, installation)"
    using kc [THEN conjunct2, THEN conjunct1, THEN mp,
        OF conjI [OF t conjI [OF pp conjI [OF pt uc]]]] c5 by simp
  have n: "tasks installation ''64b0f0a1c2d3e4f5a6b7c8c2'' = None"
    by (simp add: installation_def)
  have k1: "tasks installation K1 = Some task1" "ITask.assignee task1 = None"
    "activities installation = []"
    by (simp_all add: installation_simps task1_simps)
  show ?thesis
    by (intro conjI h1 h2 h3 a4 a5 b4 b5 c4 c5 ca ua r1 r2 r3 r4 n k1)
qed

section \<open>Activity records of a task update\<close>

lemma activities_emit:
  "activities (emitTaskCreated p1 w) = activities w"
  "activities (emitTaskUpdated p2 w) = activities w"
  "activities (emitTaskDeleted p3 w) = activities w"
  "activities (emitTaskStatusChanged p4 w) = activities w"
  "activities (emitTaskAssigned p5 w) = activities w"
  "activities (emitMemberJoined p6 w) = activities w"
  "activities (emitMemberRemoved p7 w) = activities w"
  "activities (emitMemberRoleUpdated p8 w) = activities w"
  by (simp_all add: emitTaskCreated_def emitTaskUpdated_def emitTaskDeleted_def
      emitTaskStatusChanged_def emitTaskAssigned_def emitMemberJoined_def emitMemberRemoved_def
      emitMemberRoleUpdated_def io_to_emit_def Let_def)

lemma activities_store:
  "activities (Team_save tid t w) = activities w"
  "activities (Team_findByIdAndDelete tid w) = activities w"
  "activities (Task_save kid k w) = activities w"
  "activities (Task_findByIdAndDelete kid w) = activities w"
  "activities (Project_save pid p w) = activities w"
  "activities (Project_findByIdAndDelete pid w) = activities w"
  "activities (emitProjectCreated q1 w) = activities w"
  "activities (emitProjectUpdated q2 w) = activities w"
  "activities (emitProjectDeleted q3 w) = activities w"
  by (simp_all add: Team_save_def Team_findByIdAndDelete_def Task_save_def
      Task_findByIdAndDelete_def Project_save_def Project_findByIdAndDelete_def
      emitProjectCreated_def emitProjectUpdated_def emitProjectDeleted_def io_to_emit_def)

lemma now_store:
  "now (Task_save kid k w) = now w"
  "now (Task_findByIdAndDelete kid w) = now w"
  "now (Project_save pid p w) = now w"
  "now (Project_findByIdAndDelete pid w) = now w"
  by (simp_all add: Task_save_def Task_findByIdAndDelete_def Project_save_def
      Project_findByIdAndDelete_def)







section \<open>Which operations record an activity\<close>













lemma updateTaskStatus_silent:
  "activities (snd (updateTaskStatus w user kid st)) = activities w"
  by (simp add: updateTaskStatus_def Let_def activities_store activities_emit
      split: option.splits lookup.splits prod.splits)







end
